theory Spec2Isabelle
  imports Main "HOL-Library.AList"
begin

section \<open>The estimate flow hook (src/hooks/useEstimateFlow.ts)\<close>

text \<open>
  The hook \<open>useEstimateFlow\<close> keeps the wizard's state in React state cells and exposes
  one handler per user trigger. The embedding below keeps the cells in one record, passes
  it through each handler and returns it updated. What the handlers send to the outside
  (notifications, calls of the lead gateway and of the estimate job) is appended to logs
  kept in the same record; what the outside answers (the result of an insert, an update,
  a job invocation, a status query) is an argument of the handler that awaits it. Each
  handler runs to its end before the next event is taken, and a handler reads the cells
  as they were when it was called, as a closure of the last render does.
\<close>

subsection \<open>JavaScript values\<close>

datatype json =
    JNull
  | JBool bool
  | JNum int
  | JStr string
  | JArr "json list"
  | JObj "(string \<times> json) list"

text \<open>Truthiness of a JSON value, as \<open>&&\<close> and \<open>if\<close> read it.\<close>

primrec truthy :: "json \<Rightarrow> bool" where
  "truthy JNull = False"
| "truthy (JBool b) = b"
| "truthy (JNum n) = (n \<noteq> 0)"
| "truthy (JStr s) = (s \<noteq> [])"
| "truthy (JArr xs) = True"
| "truthy (JObj kvs) = True"

text \<open>Truthiness of a value of type \<open>string | null | undefined\<close>: absent and empty are falsy.\<close>

definition truthy_str :: "string option \<Rightarrow> bool" where
  "truthy_str v = (case v of None \<Rightarrow> False | Some s \<Rightarrow> s \<noteq> [])"

text \<open>\<open>a || d\<close> for an optional string \<open>a\<close> and a string \<open>d\<close>.\<close>

definition or_default :: "string option \<Rightarrow> string \<Rightarrow> string" where
  "or_default a d = (case a of None \<Rightarrow> d | Some x \<Rightarrow> if x = [] then d else x)"

text \<open>
  A value that is thrown or returned as an error: an instance of \<open>Error\<close> with its
  message, or any other value (the gateways' error objects), with the message it carries.
\<close>

datatype thrown = ErrorInstance string | PlainObject string

subsection \<open>Data model\<close>

datatype EstimateStage = Photo | Description | Questions | Contact | Estimate | Category | Loading

record EstimateConfig =
  contractorId :: "string option"

record QuestionAnswer =
  question :: string
  qtype :: string
  answers :: "string list"
  options :: "json list"

text \<open>
  A JavaScript object is the list of its entries, in the order \<open>Object.entries\<close> gives
  them, with no key twice. A category of the answers may hold no object (the source reads
  it with \<open>categoryAnswers || {}\<close>).
\<close>

type_synonym CategoryAnswers = "(string \<times> QuestionAnswer) list"

type_synonym AnswersState = "(string \<times> CategoryAnswers option) list"

type_synonym FormattedAnswers = "(string \<times> CategoryAnswers) list"

record CategoryQuestions =
  category :: string
  questions :: "json list"

record ContactData =
  fullName :: string
  email :: string
  phone :: string
  address :: string

record LeadInsert =
  project_description :: string
  project_title :: string
  lead_answers :: FormattedAnswers
  lead_category :: "string option"
  lead_status :: string
  contractor_id :: string
  project_images :: "string list"
  user_name :: "string option"
  user_email :: "string option"
  user_phone :: "string option"
  project_address :: "string option"
  is_test_estimate :: "bool option"

text \<open>The columns a poll tick selects from the lead.\<close>

record LeadStatusRow =
  estimate_data :: json
  status :: string
  error_message :: "string option"

record InvokeBody =
  body_leadId :: string
  body_contractorId :: "string option"
  body_projectDescription :: string
  body_category :: "string option"
  body_imageUrl :: "string option"
  body_projectImages :: "string list"

text \<open>What the gateways answer.\<close>

datatype insert_result = InsertError thrown | InsertData "string option"

datatype query_result = QueryError thrown | QueryData "LeadStatusRow option"

text \<open>A call of a gateway, with its answer.\<close>

datatype gateway_event =
    Inserted LeadInsert insert_result
  | Updated string ContactData "thrown option"
  | Invoked InvokeBody "thrown option"
  | Queried string query_result

record ToastMessage =
  title :: string
  description :: string
  variant :: string

text \<open>
  The timer that \<open>setInterval\<close> creates in \<open>startEstimateGeneration\<close>: the lead it
  polls, its local \<open>timeElapsed\<close>, and whether \<open>clearInterval\<close> was called on it.
\<close>

record poller =
  leadId :: string
  timeElapsed :: nat
  cleared :: bool

record session =
  stage :: EstimateStage
  uploadedImageUrl :: "string option"
  uploadedPhotos :: "string list"
  projectDescription :: string
  currentLeadId :: "string option"
  selectedCategory :: "string option"
  completedCategories :: "string list"
  matchedQuestionSets :: "CategoryQuestions list"
  progress :: nat
  estimate :: json
  isLoading :: bool
  isGeneratingEstimate :: bool
  answersState :: AnswersState
  toasts :: "ToastMessage list"
  calls :: "gateway_event list"
  intervals :: "poller list"

definition ESTIMATE_TIMEOUT :: nat where
  "ESTIMATE_TIMEOUT = 120000"

definition POLL_INTERVAL :: nat where
  "POLL_INTERVAL = 3000"

text \<open>The state of the first render.\<close>

definition initial_session :: session where
  "initial_session =
     \<lparr>stage = Photo, uploadedImageUrl = None, uploadedPhotos = [], projectDescription = [],
      currentLeadId = None, selectedCategory = None, completedCategories = [],
      matchedQuestionSets = [], progress = 0, estimate = JNull, isLoading = True,
      isGeneratingEstimate = False, answersState = [], toasts = [], calls = [],
      intervals = []\<rparr>"

subsection \<open>Notifications\<close>

text \<open>Every notification of the hook has the title \<open>Error\<close> and the destructive variant.\<close>

definition error_toast :: "string \<Rightarrow> ToastMessage" where
  "error_toast d = \<lparr>title = ''Error'', description = d, variant = ''destructive''\<rparr>"

definition toast :: "ToastMessage \<Rightarrow> session \<Rightarrow> session" where
  "toast t s = s\<lparr>toasts := toasts s @ [t]\<rparr>"

subsection \<open>The answer formatter\<close>

text \<open>
  \<open>formatAnswersForJson\<close> reduces the entries of the answers into an accumulator that
  starts as \<open>{}\<close>, and the entries of each category into another one. The assignment
  \<open>acc[k] = v\<close> on such an object creates or overwrites the own property \<open>k\<close>, for
  every key but \<open>__proto__\<close>: that key is the accessor inherited from
  \<open>Object.prototype\<close>, its setter makes the assigned object (the values assigned here
  are objects) the prototype of the accumulator, and the accumulator gets no own property.
\<close>

definition assignProperty :: "string \<Rightarrow> 'v \<Rightarrow> (string \<times> 'v) list \<Rightarrow> (string \<times> 'v) list" where
  "assignProperty k v obj = (if k = ''__proto__'' then obj else AList.update k v obj)"

definition formatAnswer :: "QuestionAnswer \<Rightarrow> QuestionAnswer" where
  "formatAnswer answer =
     \<lparr>question = question answer, qtype = qtype answer,
      answers = answers answer, options = options answer\<rparr>"

definition formatCategory :: "CategoryAnswers option \<Rightarrow> CategoryAnswers" where
  "formatCategory categoryAnswers =
     foldl (\<lambda>catAcc (questionId, answer). assignProperty questionId (formatAnswer answer) catAcc)
       [] (case categoryAnswers of None \<Rightarrow> [] | Some entries \<Rightarrow> entries)"

definition formatAnswersForJson :: "AnswersState \<Rightarrow> FormattedAnswers" where
  "formatAnswersForJson ans =
     foldl (\<lambda>acc (cat, categoryAnswers). assignProperty cat (formatCategory categoryAnswers) acc)
       [] ans"

subsection \<open>Photo, description and category triggers\<close>

definition handlePhotoUpload :: "string list \<Rightarrow> session \<Rightarrow> session" where
  "handlePhotoUpload urls s =
     (let s1 = s\<lparr>uploadedPhotos := urls\<rparr>;
          s2 = (case urls of [] \<Rightarrow> s1 | u # rest \<Rightarrow> s1\<lparr>uploadedImageUrl := Some u\<rparr>)
      in s2\<lparr>stage := Description\<rparr>)"

text \<open>
  The question-set matcher (\<open>utils/questionSetMatcher\<close>) is not part of the hook. What
  lines 51 and 52 obtain from it is an argument here: the awaited matcher rejects, or
  the consolidation returns a list of sets.
\<close>

datatype match_outcome = MatchRejected thrown | Consolidated "CategoryQuestions list"

definition handleDescriptionSubmit :: "string \<Rightarrow> match_outcome \<Rightarrow> session \<Rightarrow> session" where
  "handleDescriptionSubmit descr outcome s =
     (let s1 = s\<lparr>projectDescription := descr\<rparr> in
      case outcome of
        MatchRejected err \<Rightarrow> s1
      | Consolidated consolidatedSets \<Rightarrow>
          (case consolidatedSets of
             [] \<Rightarrow> s1\<lparr>stage := Category\<rparr>
           | first # rest \<Rightarrow>
               (let s2 = (if category first \<noteq> []
                          then s1\<lparr>selectedCategory := Some (category first)\<rparr> else s1)
                in s2\<lparr>matchedQuestionSets := consolidatedSets, stage := Questions\<rparr>)))"

definition handleCategorySelect :: "string \<Rightarrow> session \<Rightarrow> session" where
  "handleCategorySelect categoryId s =
     s\<lparr>selectedCategory := Some categoryId, stage := Questions\<rparr>"

subsection \<open>Polling the estimate status\<close>

text \<open>
  \<open>checkEstimateStatus\<close> returns a boolean or throws; the state it has written before
  throwing stays written, so the state is returned in both cases.
\<close>

definition checkEstimateStatus ::
    "string \<Rightarrow> query_result \<Rightarrow> session \<Rightarrow> (thrown + bool) \<times> session" where
  "checkEstimateStatus lid q s =
     (let s1 = s\<lparr>calls := calls s @ [Queried lid q]\<rparr> in
      case q of
        QueryError err \<Rightarrow> (Inl err, s1)
      | QueryData None \<Rightarrow> (Inr False, s1)
      | QueryData (Some lead) \<Rightarrow>
          if status lead = ''error'' then
            (Inl (ErrorInstance (or_default (error_message lead) ''Failed to generate estimate'')),
             s1\<lparr>isGeneratingEstimate := False\<rparr>)
          else if status lead = ''complete'' \<and> truthy (estimate_data lead) then
            (Inr True,
             s1\<lparr>estimate := estimate_data lead, isGeneratingEstimate := False, stage := Estimate\<rparr>)
          else (Inr False, s1))"

text \<open>
  One run of the interval's callback, on the timer's own state and the session. The
  answer of the query is read only when the tick queries.
\<close>

definition pollTick :: "query_result \<Rightarrow> poller \<Rightarrow> session \<Rightarrow> poller \<times> session" where
  "pollTick q p s =
     (let p1 = p\<lparr>timeElapsed := timeElapsed p + POLL_INTERVAL\<rparr> in
      if ESTIMATE_TIMEOUT \<le> timeElapsed p1 then
        (p1\<lparr>cleared := True\<rparr>,
         toast (error_toast ''Estimate generation timed out. Please try again.'')
           (s\<lparr>isGeneratingEstimate := False\<rparr>))
      else
        (case checkEstimateStatus (leadId p1) q s of
           (Inr isComplete, s1) \<Rightarrow> (if isComplete then p1\<lparr>cleared := True\<rparr> else p1, s1)
         | (Inl err, s1) \<Rightarrow>
             (p1\<lparr>cleared := True\<rparr>,
              toast (error_toast
                       (case err of
                          ErrorInstance msg \<Rightarrow> msg
                        | PlainObject msg \<Rightarrow> ''Failed to generate estimate. Please try again.''))
                (s1\<lparr>isGeneratingEstimate := False\<rparr>))))"

text \<open>The timer number \<open>i\<close> fires; a cleared timer does not fire.\<close>

definition intervalTick :: "nat \<Rightarrow> query_result \<Rightarrow> session \<Rightarrow> session" where
  "intervalTick i q s =
     (if i < length (intervals s) \<and> \<not> cleared (intervals s ! i) then
        (case pollTick q (intervals s ! i) s of
           (p', s') \<Rightarrow> s'\<lparr>intervals := (intervals s')[i := p']\<rparr>)
      else s)"

subsection \<open>Starting the estimate job\<close>

text \<open>
  \<open>startEstimateGeneration\<close> up to its first \<open>await\<close>, and from the answer of the
  invocation on.
\<close>

definition startEstimateGeneration_begin :: "session \<Rightarrow> session" where
  "startEstimateGeneration_begin s = s\<lparr>isGeneratingEstimate := True\<rparr>"

definition startEstimateGeneration_resume ::
    "InvokeBody \<Rightarrow> thrown option \<Rightarrow> session \<Rightarrow> session" where
  "startEstimateGeneration_resume body invokeError s =
     (let s1 = s\<lparr>calls := calls s @ [Invoked body invokeError]\<rparr> in
      case invokeError of
        Some err \<Rightarrow>
          toast (error_toast ''Failed to start estimate generation. Please try again.'')
            (s1\<lparr>isGeneratingEstimate := False\<rparr>)
      | None \<Rightarrow>
          s1\<lparr>intervals := intervals s1 @
                 [\<lparr>leadId = body_leadId body, timeElapsed = 0, cleared = False\<rparr>]\<rparr>)"

text \<open>The body sent to the \<open>generate-estimate\<close> function.\<close>

definition invokeBody :: "EstimateConfig \<Rightarrow> string \<Rightarrow> session \<Rightarrow> InvokeBody" where
  "invokeBody config lid s =
     \<lparr>body_leadId = lid, body_contractorId = contractorId config,
      body_projectDescription = projectDescription s, body_category = selectedCategory s,
      body_imageUrl = uploadedImageUrl s, body_projectImages = uploadedPhotos s\<rparr>"

definition startEstimateGeneration ::
    "EstimateConfig \<Rightarrow> string \<Rightarrow> thrown option \<Rightarrow> session \<Rightarrow> session" where
  "startEstimateGeneration config lid invokeError s =
     startEstimateGeneration_resume (invokeBody config lid s) invokeError
       (startEstimateGeneration_begin s)"

subsection \<open>Lead submission\<close>

text \<open>\<open>matchedQuestionSets[0]?.category\<close>\<close>

definition currentCategory :: "session \<Rightarrow> string option" where
  "currentCategory s =
     (case matchedQuestionSets s of [] \<Rightarrow> None | first # rest \<Rightarrow> Some (category first))"

text \<open>
  \<open>answers[currentCategory]?.Q1?.answers[0]\<close>; an undefined category is the property
  key \<open>undefined\<close>.
\<close>

definition firstAnswer :: "AnswersState \<Rightarrow> string option \<Rightarrow> string option" where
  "firstAnswer ans cat =
     (case map_of ans (case cat of None \<Rightarrow> ''undefined'' | Some c \<Rightarrow> c) of
        None \<Rightarrow> None
      | Some None \<Rightarrow> None
      | Some (Some categoryAnswers) \<Rightarrow>
          (case map_of categoryAnswers ''Q1'' of
             None \<Rightarrow> None
           | Some answer \<Rightarrow> (case answers answer of [] \<Rightarrow> None | a # rest \<Rightarrow> Some a)))"

text \<open>The id of the inserted lead, when the insert gave one (\<open>leadError\<close>, \<open>!lead?.id\<close>).\<close>

definition insertedId :: "insert_result \<Rightarrow> string option" where
  "insertedId r =
     (case r of
        InsertError err \<Rightarrow> None
      | InsertData i \<Rightarrow> if truthy_str i then i else None)"

text \<open>The lead id the session holds (\<open>if (currentLeadId)\<close>).\<close>

definition heldLeadId :: "session \<Rightarrow> string option" where
  "heldLeadId s = (if truthy_str (currentLeadId s) then currentLeadId s else None)"

definition questionLeadData :: "EstimateConfig \<Rightarrow> AnswersState \<Rightarrow> session \<Rightarrow> LeadInsert" where
  "questionLeadData config ans s =
     \<lparr>project_description =
        or_default (firstAnswer ans (currentCategory s))
          (or_default (Some (projectDescription s)) ''New project''),
      project_title = or_default (currentCategory s) ''New'' @ '' Project'',
      lead_answers = formatAnswersForJson ans,
      lead_category = currentCategory s,
      lead_status = ''pending'',
      contractor_id = or_default (contractorId config) [],
      project_images = uploadedPhotos s,
      user_name = None, user_email = None, user_phone = None, project_address = None,
      is_test_estimate = None\<rparr>"

definition handleQuestionComplete ::
    "EstimateConfig \<Rightarrow> AnswersState \<Rightarrow> insert_result \<Rightarrow> thrown option \<Rightarrow> session \<Rightarrow> session" where
  "handleQuestionComplete config ans ins invErr s =
     (if \<not> truthy_str (contractorId config) then
        toast (error_toast ''Contractor ID is required'') s
      else
        (let s1 = s\<lparr>answersState := ans, stage := Loading\<rparr>;
             s2 = s1\<lparr>calls := calls s1 @ [Inserted (questionLeadData config ans s) ins]\<rparr>
         in case insertedId ins of
              None \<Rightarrow>
                (toast (error_toast ''Failed to start estimate generation. Please try again.'') s2)
                  \<lparr>stage := Questions\<rparr>
            | Some lid \<Rightarrow>
                startEstimateGeneration config lid invErr
                  (s2\<lparr>currentLeadId := Some lid, isGeneratingEstimate := True,
                      stage := Contact\<rparr>)))"

definition contactLeadData :: "EstimateConfig \<Rightarrow> ContactData \<Rightarrow> session \<Rightarrow> LeadInsert" where
  "contactLeadData config contactData s =
     (questionLeadData config (answersState s) s)
       \<lparr>user_name := Some (fullName contactData), user_email := Some (email contactData),
        user_phone := Some (phone contactData), project_address := Some (address contactData)\<rparr>"

text \<open>The \<open>catch\<close> of \<open>handleContactSubmit\<close>.\<close>

definition contactFailed :: "session \<Rightarrow> session" where
  "contactFailed s =
     (toast (error_toast ''Failed to process your information. Please try again.'') s)
       \<lparr>isGeneratingEstimate := False\<rparr>"

definition handleContactSubmit ::
    "EstimateConfig \<Rightarrow> ContactData \<Rightarrow> insert_result \<Rightarrow> thrown option \<Rightarrow> thrown option \<Rightarrow>
       session \<Rightarrow> session" where
  "handleContactSubmit config contactData ins upd invErr s =
     (if \<not> truthy_str (contractorId config) then contactFailed s
      else
        (case heldLeadId s of
           Some lid \<Rightarrow>
             (let s1 = s\<lparr>calls := calls s @ [Updated lid contactData upd]\<rparr> in
              case upd of
                Some err \<Rightarrow> contactFailed s1
              | None \<Rightarrow>
                  if \<not> isGeneratingEstimate s then startEstimateGeneration config lid invErr s1
                  else s1)
         | None \<Rightarrow>
             (let s1 = s\<lparr>calls := calls s @ [Inserted (contactLeadData config contactData s) ins]\<rparr>
              in case insertedId ins of
                   None \<Rightarrow> contactFailed s1
                 | Some lid \<Rightarrow>
                     startEstimateGeneration config lid invErr (s1\<lparr>currentLeadId := Some lid\<rparr>))))"

definition skipLeadData :: "EstimateConfig \<Rightarrow> session \<Rightarrow> LeadInsert" where
  "skipLeadData config s =
     \<lparr>project_description = or_default (Some (projectDescription s)) ''Test project'',
      project_title = ''Test Project'',
      lead_answers = formatAnswersForJson (answersState s),
      lead_category = selectedCategory s,
      lead_status = ''pending'',
      contractor_id = or_default (contractorId config) [],
      project_images = uploadedPhotos s,
      user_name = None, user_email = None, user_phone = None, project_address = None,
      is_test_estimate = Some True\<rparr>"

definition handleSkip ::
    "EstimateConfig \<Rightarrow> insert_result \<Rightarrow> thrown option \<Rightarrow> session \<Rightarrow> session" where
  "handleSkip config ins invErr s =
     (if \<not> truthy_str (contractorId config) then s
      else
        (let s1 = s\<lparr>isGeneratingEstimate := True\<rparr>;
             s2 = s1\<lparr>calls := calls s1 @ [Inserted (skipLeadData config s) ins]\<rparr>
         in case insertedId ins of
              None \<Rightarrow>
                (toast (error_toast ''Failed to process your request. Please try again.'') s2)
                  \<lparr>isGeneratingEstimate := False\<rparr>
            | Some lid \<Rightarrow>
                (startEstimateGeneration config lid invErr (s2\<lparr>currentLeadId := Some lid\<rparr>))
                  \<lparr>stage := Estimate\<rparr>))"

subsection \<open>The poll loop\<close>

text \<open>
  The timer number \<open>i\<close> fires again and again until it is cleared. The answers of the
  status queries are given by tick number; the result is the number of ticks that ran
  and the state they leave.
\<close>

function runInterval :: "nat \<Rightarrow> (nat \<Rightarrow> query_result) \<Rightarrow> nat \<Rightarrow> session \<Rightarrow> nat \<times> session" where
  "runInterval i env n s =
     (if i < length (intervals s) \<and> \<not> cleared (intervals s ! i)
      then runInterval i env (Suc n) (intervalTick i (env n) s)
      else (n, s))"
  by pat_completeness auto
termination
  by (relation "measure (\<lambda>(i, env, n, s).
        if i < length (intervals s) \<and> \<not> cleared (intervals s ! i)
        then Suc (ESTIMATE_TIMEOUT - timeElapsed (intervals s ! i)) else 0)")
     (auto simp: intervalTick_def pollTick_def checkEstimateStatus_def toast_def Let_def
        ESTIMATE_TIMEOUT_def POLL_INTERVAL_def
        split: prod.splits sum.splits if_splits query_result.splits option.splits)

declare runInterval.simps [simp del]

text \<open>An answer of a status query that ends nothing: no row, or a row that is neither in
  error nor complete with its estimate.\<close>

definition nonTerminal :: "query_result \<Rightarrow> bool" where
  "nonTerminal q =
     (case q of
        QueryError err \<Rightarrow> False
      | QueryData None \<Rightarrow> True
      | QueryData (Some lead) \<Rightarrow>
          status lead \<noteq> ''error'' \<and> \<not> (status lead = ''complete'' \<and> truthy (estimate_data lead)))"

subsection \<open>Sessions as sequences of events\<close>

text \<open>
  The six public triggers of the hook, each with what the gateways answer to the calls it
  makes, and the firing of a poll timer with the answer of its status query.
\<close>

datatype trigger =
    SubmitPhotos "string list"
  | SubmitDescription string match_outcome
  | SelectCategory string
  | CompleteQuestions AnswersState insert_result "thrown option"
  | SubmitContact ContactData insert_result "thrown option" "thrown option"
  | Skip insert_result "thrown option"
  | TimerFires nat query_result

fun step :: "EstimateConfig \<Rightarrow> trigger \<Rightarrow> session \<Rightarrow> session" where
  "step config (SubmitPhotos urls) s = handlePhotoUpload urls s"
| "step config (SubmitDescription descr outcome) s = handleDescriptionSubmit descr outcome s"
| "step config (SelectCategory categoryId) s = handleCategorySelect categoryId s"
| "step config (CompleteQuestions ans ins invErr) s = handleQuestionComplete config ans ins invErr s"
| "step config (SubmitContact contactData ins upd invErr) s =
     handleContactSubmit config contactData ins upd invErr s"
| "step config (Skip ins invErr) s = handleSkip config ins invErr s"
| "step config (TimerFires i q) s = intervalTick i q s"

fun run :: "EstimateConfig \<Rightarrow> trigger list \<Rightarrow> session \<Rightarrow> session" where
  "run config [] s = s"
| "run config (t # ts) s = run config ts (step config t s)"


text \<open>The insert calls of a log, and those of them that returned a lead id.\<close>

fun isInsert :: "gateway_event \<Rightarrow> bool" where
  "isInsert (Inserted leadData r) = True"
| "isInsert e = False"

fun createdLead :: "gateway_event \<Rightarrow> bool" where
  "createdLead (Inserted leadData r) = (insertedId r \<noteq> None)"
| "createdLead e = False"

definition insertCalls :: "gateway_event list \<Rightarrow> gateway_event list" where
  "insertCalls evs = filter isInsert evs"

definition leadsCreated :: "gateway_event list \<Rightarrow> nat" where
  "leadsCreated evs = length (filter createdLead evs)"


text \<open>The timer number \<open>i\<close> is live: it exists and was not cleared.\<close>

definition live :: "nat \<Rightarrow> session \<Rightarrow> bool" where
  "live i s = (i < length (intervals s) \<and> \<not> cleared (intervals s ! i))"

text \<open>
  The next firing of the timer number \<open>i\<close> makes the status query: the timer is live
  and its elapsed time stays under the ceiling.
\<close>

definition queryingTick :: "nat \<Rightarrow> session \<Rightarrow> bool" where
  "queryingTick i s =
     (live i s \<and> timeElapsed (intervals s ! i) + POLL_INTERVAL < ESTIMATE_TIMEOUT)"

subsection \<open>Well-formed answers\<close>

definition categoryEntries :: "CategoryAnswers option \<Rightarrow> CategoryAnswers" where
  "categoryEntries categoryAnswers = (case categoryAnswers of None \<Rightarrow> [] | Some es \<Rightarrow> es)"

text \<open>No key twice, in the answers and in each category.\<close>

definition wellFormedAnswers :: "AnswersState \<Rightarrow> bool" where
  "wellFormedAnswers ans =
     (distinct (map fst ans) \<and> list_all (\<lambda>(cat, e). distinct (map fst (categoryEntries e))) ans)"

text \<open>The entries of an object whose key is not \<open>__proto__\<close>.\<close>

definition plainEntries :: "(string \<times> 'v) list \<Rightarrow> (string \<times> 'v) list" where
  "plainEntries obj = filter (\<lambda>(k, v). k \<noteq> ''__proto__'') obj"

text \<open>No category and no question id of the answers is \<open>__proto__\<close>.\<close>

definition plainKeys :: "AnswersState \<Rightarrow> bool" where
  "plainKeys ans =
     (plainEntries ans = ans \<and>
      list_all (\<lambda>(cat, e). plainEntries (categoryEntries e) = categoryEntries e) ans)"

section \<open>Photo upload\<close>

text \<open>
  C10. \<open>handlePhotoUpload\<close> always sets the stage to \<open>description\<close>, also for the empty
  list of URLs; it stores the list as the uploaded photos; it sets \<open>uploadedImageUrl\<close>
  to the first URL when the list is not empty and leaves it as it was otherwise.
\<close>

theorem handlePhotoUpload_spec:
  "stage (handlePhotoUpload urls s) = Description \<and>
   stage (handlePhotoUpload [] s) = Description \<and>
   uploadedPhotos (handlePhotoUpload urls s) = urls \<and>
   uploadedImageUrl (handlePhotoUpload (u # rest) s) = Some u \<and>
   uploadedImageUrl (handlePhotoUpload [] s) = uploadedImageUrl s"
  by (simp add: handlePhotoUpload_def Let_def split: list.split)

section \<open>The answer formatter\<close>

lemma update_fresh_key:
  "k \<notin> fst ` set al \<Longrightarrow> AList.update k v al = al @ [(k, v)]"
  by (induction al) auto

lemma foldl_assign_distinct:
  "distinct (map fst xs) \<Longrightarrow> fst ` set acc \<inter> fst ` set xs = {} \<Longrightarrow>
   foldl (\<lambda>a (k, v). assignProperty k (f v) a) acc xs =
     acc @ map (\<lambda>(k, v). (k, f v)) (plainEntries xs)"
proof (induction xs arbitrary: acc)
  case Nil
  then show ?case by (simp add: plainEntries_def)
next
  case (Cons x xs)
  obtain k v where x: "x = (k, v)" by (cases x)
  from Cons.prems x have fresh: "k \<notin> fst ` set acc" by auto
  from Cons.prems x have d: "distinct (map fst xs)" by simp
  show ?case
  proof (cases "k = ''__proto__''")
    case True
    from Cons.prems x have disj: "fst ` set acc \<inter> fst ` set xs = {}" by auto
    from Cons.IH [OF d disj] x True show ?thesis
      by (simp add: assignProperty_def plainEntries_def)
  next
    case False
    from Cons.prems x have disj: "fst ` set (acc @ [(k, f v)]) \<inter> fst ` set xs = {}"
      by (auto simp: image_iff)
    from Cons.IH [OF d disj] x False show ?thesis
      by (simp add: assignProperty_def plainEntries_def update_fresh_key [OF fresh])
  qed
qed

lemma formatAnswer_id: "formatAnswer a = a"
  by (simp add: formatAnswer_def)

lemma formatCategory_entries:
  "distinct (map fst (categoryEntries e)) \<Longrightarrow> formatCategory e = plainEntries (categoryEntries e)"
proof -
  assume d: "distinct (map fst (categoryEntries e))"
  have "foldl (\<lambda>a (k, v). assignProperty k (formatAnswer v) a) [] (categoryEntries e)
          = [] @ map (\<lambda>(k, v). (k, formatAnswer v)) (plainEntries (categoryEntries e))"
    by (rule foldl_assign_distinct [OF d]) simp
  then show ?thesis
    by (simp add: formatCategory_def categoryEntries_def formatAnswer_id split_def)
qed

text \<open>
  What the formatter returns for any answers with no key twice: the entries whose key is
  not \<open>__proto__\<close>, in order, each category with its entries whose question id is not
  \<open>__proto__\<close>.
\<close>

lemma formatAnswersForJson_map:
  assumes "wellFormedAnswers ans"
  shows "formatAnswersForJson ans =
           map (\<lambda>(cat, e). (cat, plainEntries (categoryEntries e))) (plainEntries ans)"
proof -
  from assms have d: "distinct (map fst ans)"
    and each: "\<And>cat e. (cat, e) \<in> set ans \<Longrightarrow> distinct (map fst (categoryEntries e))"
    by (auto simp: wellFormedAnswers_def list_all_iff)
  have "foldl (\<lambda>a (k, v). assignProperty k (formatCategory v) a) [] ans
          = [] @ map (\<lambda>(k, v). (k, formatCategory v)) (plainEntries ans)"
    by (rule foldl_assign_distinct [OF d]) simp
  moreover have "map (\<lambda>(k, v). (k, formatCategory v)) (plainEntries ans)
          = map (\<lambda>(cat, e). (cat, plainEntries (categoryEntries e))) (plainEntries ans)"
    using each by (auto simp: formatCategory_entries plainEntries_def)
  ultimately show ?thesis by (simp add: formatAnswersForJson_def)
qed

lemma formatAnswersForJson_plain:
  assumes "wellFormedAnswers ans" and "plainKeys ans"
  shows "formatAnswersForJson ans = map (\<lambda>(cat, e). (cat, categoryEntries e)) ans"
proof -
  from assms(2) have top: "plainEntries ans = ans"
    and each: "\<And>cat e. (cat, e) \<in> set ans \<Longrightarrow> plainEntries (categoryEntries e) = categoryEntries e"
    by (auto simp: plainKeys_def list_all_iff)
  have "map (\<lambda>(cat, e). (cat, plainEntries (categoryEntries e))) ans
          = map (\<lambda>(cat, e). (cat, categoryEntries e)) ans"
    using each by auto
  then show ?thesis by (simp add: formatAnswersForJson_map [OF assms(1)] top)
qed

lemma formatAnswersForJson_lookup:
  assumes "wellFormedAnswers ans" and "plainKeys ans" and mem: "(cat, e) \<in> set ans"
  shows "map_of (formatAnswersForJson ans) cat = Some (formatCategory e)"
    and "formatCategory e = categoryEntries e"
proof -
  from assms have d: "distinct (map fst ans)"
    and each: "distinct (map fst (categoryEntries e))"
    and plain: "plainEntries (categoryEntries e) = categoryEntries e"
    by (auto simp: wellFormedAnswers_def plainKeys_def list_all_iff)
  show fc: "formatCategory e = categoryEntries e"
    by (simp add: formatCategory_entries [OF each] plain)
  have d': "distinct (map fst (map (\<lambda>(cat, e). (cat, categoryEntries e)) ans))"
    using d by (simp add: split_def comp_def)
  have "(cat, categoryEntries e) \<in> set (map (\<lambda>(cat, e). (cat, categoryEntries e)) ans)"
    using mem by force
  then have "map_of (map (\<lambda>(cat, e). (cat, categoryEntries e)) ans) cat = Some (categoryEntries e)"
    using d' by (rule_tac map_of_is_SomeI)
  then show "map_of (formatAnswersForJson ans) cat = Some (formatCategory e)"
    by (simp add: formatAnswersForJson_plain [OF assms(1) assms(2)] fc)
qed

lemma formatCategory_lookup:
  assumes "wellFormedAnswers ans" and "plainKeys ans" and mem: "(cat, e) \<in> set ans"
    and q: "(qid, a) \<in> set (categoryEntries e)"
  shows "map_of (formatCategory e) qid = Some a"
proof -
  from assms have each: "distinct (map fst (categoryEntries e))"
    and plain: "plainEntries (categoryEntries e) = categoryEntries e"
    by (auto simp: wellFormedAnswers_def plainKeys_def list_all_iff)
  have "map_of (categoryEntries e) qid = Some a"
    using each q by (rule map_of_is_SomeI)
  then show ?thesis
    by (simp add: formatCategory_entries [OF each] plain)
qed

text \<open>
  On answers with no key twice and no key \<open>__proto__\<close>, the formatter keeps the category
  keys, in order; under each category it keeps the question ids, in order; the object
  stored under a question id has the \<open>question\<close>, \<open>type\<close>, \<open>answers\<close> and \<open>options\<close>
  of the input's entry; and the empty object is mapped to the empty object.
\<close>

theorem formatAnswersForJson_preserves_plain:
  assumes "wellFormedAnswers ans" and "plainKeys ans"
  shows "map fst (formatAnswersForJson ans) = map fst ans \<and>
         (\<forall>cat e. (cat, e) \<in> set ans \<longrightarrow>
            map_of (formatAnswersForJson ans) cat = Some (formatCategory e) \<and>
            map fst (formatCategory e) = map fst (categoryEntries e) \<and>
            (\<forall>qid a. (qid, a) \<in> set (categoryEntries e) \<longrightarrow>
               (\<exists>b. map_of (formatCategory e) qid = Some b \<and>
                    question b = question a \<and> qtype b = qtype a \<and>
                    answers b = answers a \<and> options b = options a))) \<and>
         formatAnswersForJson [] = []"
proof (intro conjI allI impI)
  show "map fst (formatAnswersForJson ans) = map fst ans"
    by (simp add: formatAnswersForJson_plain [OF assms] split_def comp_def)
next
  show "formatAnswersForJson [] = []"
    by (simp add: formatAnswersForJson_def)
next
  fix cat e assume mem: "(cat, e) \<in> set ans"
  show "map_of (formatAnswersForJson ans) cat = Some (formatCategory e)"
    by (rule formatAnswersForJson_lookup(1) [OF assms mem])
  show "map fst (formatCategory e) = map fst (categoryEntries e)"
    by (simp add: formatAnswersForJson_lookup(2) [OF assms mem])
  fix qid a assume q: "(qid, a) \<in> set (categoryEntries e)"
  show "\<exists>b. map_of (formatCategory e) qid = Some b \<and>
            question b = question a \<and> qtype b = qtype a \<and>
            answers b = answers a \<and> options b = options a"
    by (simp add: formatCategory_lookup [OF assms mem q])
qed

theorem formatAnswersForJson_preserves_plain_witness:
  "wellFormedAnswers
     [(''roofing'',
       Some [(''Q1'', \<lparr>question = ''Leak?'', qtype = ''single_choice'',
                        answers = [''yes''], options = [JStr ''yes'', JStr ''no'']\<rparr>),
             (''Q2'', \<lparr>question = ''Area'', qtype = ''multiple_choice'',
                        answers = [], options = []\<rparr>)]),
      (''paint'', None)] \<and>
   plainKeys
     [(''roofing'',
       Some [(''Q1'', \<lparr>question = ''Leak?'', qtype = ''single_choice'',
                        answers = [''yes''], options = [JStr ''yes'', JStr ''no'']\<rparr>),
             (''Q2'', \<lparr>question = ''Area'', qtype = ''multiple_choice'',
                        answers = [], options = []\<rparr>)]),
      (''paint'', None)] \<and>
   map fst (formatAnswersForJson
     [(''roofing'',
       Some [(''Q1'', \<lparr>question = ''Leak?'', qtype = ''single_choice'',
                        answers = [''yes''], options = [JStr ''yes'', JStr ''no'']\<rparr>),
             (''Q2'', \<lparr>question = ''Area'', qtype = ''multiple_choice'',
                        answers = [], options = []\<rparr>)]),
      (''paint'', None)]) = [''roofing'', ''paint'']"
proof -
  let ?ans = "[(''roofing'',
       Some [(''Q1'', \<lparr>question = ''Leak?'', qtype = ''single_choice'',
                        answers = [''yes''], options = [JStr ''yes'', JStr ''no'']\<rparr>),
             (''Q2'', \<lparr>question = ''Area'', qtype = ''multiple_choice'',
                        answers = [], options = []\<rparr>)]),
      (''paint'', None)] :: AnswersState"
  have wf: "wellFormedAnswers ?ans"
    by (simp add: wellFormedAnswers_def categoryEntries_def)
  have pl: "plainKeys ?ans"
    by (simp add: plainKeys_def plainEntries_def categoryEntries_def)
  from formatAnswersForJson_preserves_plain [OF wf pl]
  have "map fst (formatAnswersForJson ?ans) = map fst ?ans"
    by blast
  with wf pl show ?thesis by simp
qed

text \<open>
  C8 at answers that hold the key \<open>__proto__\<close>, once as a category and once as a
  question id (such an object is what \<open>JSON.parse\<close> returns for a text with that key).
  The answers are well formed, the formatter returns, and its result has lost both
  entries: of the categories \<open>__proto__\<close> and \<open>roofing\<close> only \<open>roofing\<close> is a key
  of the result, and of the question ids \<open>__proto__\<close> and \<open>Q2\<close> under it only \<open>Q2\<close>.
\<close>

theorem formatAnswersForJson_drops_proto_key:
  "wellFormedAnswers
     [(''__proto__'',
       Some [(''Q1'', \<lparr>question = ''Leak?'', qtype = ''single_choice'',
                        answers = [''yes''], options = [JStr ''yes'', JStr ''no'']\<rparr>)]),
      (''roofing'',
       Some [(''__proto__'', \<lparr>question = ''Slope'', qtype = ''single_choice'',
                               answers = [''steep''], options = []\<rparr>),
             (''Q2'', \<lparr>question = ''Area'', qtype = ''multiple_choice'',
                        answers = [], options = []\<rparr>)])] \<and>
   formatAnswersForJson
     [(''__proto__'',
       Some [(''Q1'', \<lparr>question = ''Leak?'', qtype = ''single_choice'',
                        answers = [''yes''], options = [JStr ''yes'', JStr ''no'']\<rparr>)]),
      (''roofing'',
       Some [(''__proto__'', \<lparr>question = ''Slope'', qtype = ''single_choice'',
                               answers = [''steep''], options = []\<rparr>),
             (''Q2'', \<lparr>question = ''Area'', qtype = ''multiple_choice'',
                        answers = [], options = []\<rparr>)])] =
     [(''roofing'',
       [(''Q2'', \<lparr>question = ''Area'', qtype = ''multiple_choice'',
                  answers = [], options = []\<rparr>)])]"
  by (simp add: wellFormedAnswers_def categoryEntries_def formatAnswersForJson_def
      formatCategory_def formatAnswer_def assignProperty_def)

section \<open>One tick of the poll timer\<close>

lemma checkEstimateStatus_nonTerminal:
  "nonTerminal q \<Longrightarrow>
   checkEstimateStatus lid q s = (Inr False, s\<lparr>calls := calls s @ [Queried lid q]\<rparr>)"
  by (auto simp: nonTerminal_def checkEstimateStatus_def Let_def
      split: query_result.splits option.splits)

lemma intervalTick_nonTerminal:
  assumes "i < length (intervals s)" and "\<not> cleared (intervals s ! i)"
    and "timeElapsed (intervals s ! i) + POLL_INTERVAL < ESTIMATE_TIMEOUT"
    and "nonTerminal q"
  shows "intervalTick i q s =
           s\<lparr>calls := calls s @ [Queried (leadId (intervals s ! i)) q],
             intervals := (intervals s)
               [i := (intervals s ! i)\<lparr>timeElapsed := timeElapsed (intervals s ! i) + POLL_INTERVAL\<rparr>]\<rparr>"
  using assms
  by (simp add: intervalTick_def pollTick_def Let_def checkEstimateStatus_nonTerminal)

lemma intervalTick_timeout:
  assumes "i < length (intervals s)" and "\<not> cleared (intervals s ! i)"
    and "ESTIMATE_TIMEOUT \<le> timeElapsed (intervals s ! i) + POLL_INTERVAL"
  shows "intervalTick i q s =
           s\<lparr>isGeneratingEstimate := False,
             toasts := toasts s @ [error_toast ''Estimate generation timed out. Please try again.''],
             intervals := (intervals s)
               [i := (intervals s ! i)\<lparr>timeElapsed := timeElapsed (intervals s ! i) + POLL_INTERVAL,
                                        cleared := True\<rparr>]\<rparr>"
  using assms
  by (simp add: intervalTick_def pollTick_def Let_def toast_def)

lemma intervalTick_queryError:
  assumes "i < length (intervals s)" and "\<not> cleared (intervals s ! i)"
    and "timeElapsed (intervals s ! i) + POLL_INTERVAL < ESTIMATE_TIMEOUT"
  shows "intervalTick i (QueryError err) s =
           s\<lparr>calls := calls s @ [Queried (leadId (intervals s ! i)) (QueryError err)],
             isGeneratingEstimate := False,
             toasts := toasts s @
               [error_toast (case err of
                               ErrorInstance msg \<Rightarrow> msg
                             | PlainObject msg \<Rightarrow> ''Failed to generate estimate. Please try again.'')],
             intervals := (intervals s)
               [i := (intervals s ! i)\<lparr>timeElapsed := timeElapsed (intervals s ! i) + POLL_INTERVAL,
                                        cleared := True\<rparr>]\<rparr>"
  using assms
  by (simp add: intervalTick_def pollTick_def Let_def toast_def checkEstimateStatus_def)

lemma intervalTick_errorStatus:
  assumes "i < length (intervals s)" and "\<not> cleared (intervals s ! i)"
    and "timeElapsed (intervals s ! i) + POLL_INTERVAL < ESTIMATE_TIMEOUT"
    and "status lead = ''error''"
  shows "intervalTick i (QueryData (Some lead)) s =
           s\<lparr>calls := calls s @ [Queried (leadId (intervals s ! i)) (QueryData (Some lead))],
             isGeneratingEstimate := False,
             toasts := toasts s @
               [error_toast (or_default (error_message lead) ''Failed to generate estimate'')],
             intervals := (intervals s)
               [i := (intervals s ! i)\<lparr>timeElapsed := timeElapsed (intervals s ! i) + POLL_INTERVAL,
                                        cleared := True\<rparr>]\<rparr>"
  using assms
  by (simp add: intervalTick_def pollTick_def Let_def toast_def checkEstimateStatus_def)

lemma intervalTick_complete:
  assumes "i < length (intervals s)" and "\<not> cleared (intervals s ! i)"
    and "timeElapsed (intervals s ! i) + POLL_INTERVAL < ESTIMATE_TIMEOUT"
    and "status lead = ''complete''" and "truthy (estimate_data lead)"
  shows "intervalTick i (QueryData (Some lead)) s =
           s\<lparr>calls := calls s @ [Queried (leadId (intervals s ! i)) (QueryData (Some lead))],
             estimate := estimate_data lead,
             isGeneratingEstimate := False,
             stage := Estimate,
             intervals := (intervals s)
               [i := (intervals s ! i)\<lparr>timeElapsed := timeElapsed (intervals s ! i) + POLL_INTERVAL,
                                        cleared := True\<rparr>]\<rparr>"
  using assms
  by (simp add: intervalTick_def pollTick_def Let_def toast_def checkEstimateStatus_def)

lemma intervalTick_cleared:
  "\<not> (i < length (intervals s) \<and> \<not> cleared (intervals s ! i)) \<Longrightarrow> intervalTick i q s = s"
  by (auto simp: intervalTick_def)

lemma runInterval_stop:
  "\<not> (i < length (intervals s) \<and> \<not> cleared (intervals s ! i)) \<Longrightarrow> runInterval i env n s = (n, s)"
  by (subst runInterval.simps) auto

lemma runInterval_step:
  "i < length (intervals s) \<Longrightarrow> \<not> cleared (intervals s ! i) \<Longrightarrow>
   runInterval i env n s = runInterval i env (Suc n) (intervalTick i (env n) s)"
  by (subst runInterval.simps) simp

section \<open>The poll timeout\<close>

lemma runInterval_countdown:
  assumes nt: "\<forall>n. nonTerminal (env n)"
  shows "i < length (intervals s) \<Longrightarrow> \<not> cleared (intervals s ! i) \<Longrightarrow>
         timeElapsed (intervals s ! i) + POLL_INTERVAL * Suc m = ESTIMATE_TIMEOUT \<Longrightarrow>
         fst (runInterval i env n s) = n + Suc m \<and>
         \<not> isGeneratingEstimate (snd (runInterval i env n s)) \<and>
         cleared (intervals (snd (runInterval i env n s)) ! i) \<and>
         toasts (snd (runInterval i env n s)) =
           toasts s @ [error_toast ''Estimate generation timed out. Please try again.''] \<and>
         calls (snd (runInterval i env n s)) =
           calls s @ map (\<lambda>j. Queried (leadId (intervals s ! i)) (env j)) [n..<n + m] \<and>
         stage (snd (runInterval i env n s)) = stage s \<and>
         estimate (snd (runInterval i env n s)) = estimate s"
proof (induction m arbitrary: n s)
  case 0
  let ?s' = "intervalTick i (env n) s"
  from 0 have late: "ESTIMATE_TIMEOUT \<le> timeElapsed (intervals s ! i) + POLL_INTERVAL" by simp
  note tick = intervalTick_timeout [OF "0.prems"(1) "0.prems"(2) late, of "env n"]
  have stop: "\<not> (i < length (intervals ?s') \<and> \<not> cleared (intervals ?s' ! i))"
    using "0.prems"(1) by (simp add: tick)
  have "runInterval i env n s = (Suc n, ?s')"
    using runInterval_step [OF "0.prems"(1) "0.prems"(2), of env n] runInterval_stop [OF stop, of env "Suc n"]
    by simp
  then show ?case
    using "0.prems"(1) by (simp add: tick)
next
  case (Suc m)
  let ?s' = "intervalTick i (env n) s"
  from Suc.prems have early: "timeElapsed (intervals s ! i) + POLL_INTERVAL < ESTIMATE_TIMEOUT"
    by (simp add: POLL_INTERVAL_def)
  from nt have ntn: "nonTerminal (env n)" by simp
  note tick = intervalTick_nonTerminal [OF Suc.prems(1) Suc.prems(2) early ntn]
  have len: "i < length (intervals ?s')" using Suc.prems(1) by (simp add: tick)
  have act: "\<not> cleared (intervals ?s' ! i)" using Suc.prems(1) Suc.prems(2) by (simp add: tick)
  have te: "timeElapsed (intervals ?s' ! i) + POLL_INTERVAL * Suc m = ESTIMATE_TIMEOUT"
    using Suc.prems(1) Suc.prems(3) by (simp add: tick)
  have lid: "leadId (intervals ?s' ! i) = leadId (intervals s ! i)"
    using Suc.prems(1) by (simp add: tick)
  have run: "runInterval i env n s = runInterval i env (Suc n) ?s'"
    by (rule runInterval_step [OF Suc.prems(1) Suc.prems(2)])
  have up: "[n..<n + Suc m] = n # [Suc n..<Suc n + m]"
    by (simp add: upt_conv_Cons)
  from Suc.IH [OF len act te, of "Suc n"] show ?case
    unfolding run lid up by (simp add: tick)
qed

text \<open>
  C3. The timer starts with \<open>timeElapsed = 0\<close>, adds 3000 at each tick and compares with
  120000. When every status query ends nothing (no row, or a row that is neither in error
  nor complete with its estimate), the timer's callback runs exactly 40 times: the first
  39 ticks query the lead, the 40th finds the ceiling reached, clears the interval, sets
  \<open>isGeneratingEstimate\<close> to false and fires the timeout notification, the only
  notification of the loop. The stage is left as it was.
\<close>

theorem poll_timeout_after_40_ticks:
  assumes "\<forall>n. nonTerminal (env n)"
    and "i < length (intervals s)"
    and "intervals s ! i = \<lparr>leadId = lid, timeElapsed = 0, cleared = False\<rparr>"
  shows "fst (runInterval i env 0 s) = 40 \<and>
         toasts (snd (runInterval i env 0 s)) =
           toasts s @ [error_toast ''Estimate generation timed out. Please try again.''] \<and>
         cleared (intervals (snd (runInterval i env 0 s)) ! i) \<and>
         \<not> isGeneratingEstimate (snd (runInterval i env 0 s)) \<and>
         calls (snd (runInterval i env 0 s)) = calls s @ map (\<lambda>j. Queried lid (env j)) [0..<39] \<and>
         stage (snd (runInterval i env 0 s)) = stage s"
proof -
  have act: "\<not> cleared (intervals s ! i)" using assms(3) by simp
  have te: "timeElapsed (intervals s ! i) + POLL_INTERVAL * Suc 39 = ESTIMATE_TIMEOUT"
    using assms(3) by (simp add: POLL_INTERVAL_def ESTIMATE_TIMEOUT_def)
  from runInterval_countdown [OF assms(1) assms(2) act te, of 0] show ?thesis
    using assms(3) by simp
qed

text \<open>
  A job started in the first state of a session, whose lead never gets a row: the timer
  runs 40 times.
\<close>

theorem poll_timeout_after_40_ticks_witness:
  "(\<forall>n::nat. nonTerminal (QueryData None)) \<and>
   0 < length (intervals (startEstimateGeneration \<lparr>contractorId = Some ''c1''\<rparr> ''lead-1'' None
                            initial_session)) \<and>
   fst (runInterval 0 (\<lambda>n. QueryData None) 0
          (startEstimateGeneration \<lparr>contractorId = Some ''c1''\<rparr> ''lead-1'' None initial_session))
     = 40 \<and>
   map description
     (toasts (snd (runInterval 0 (\<lambda>n. QueryData None) 0
          (startEstimateGeneration \<lparr>contractorId = Some ''c1''\<rparr> ''lead-1'' None initial_session))))
     = [''Estimate generation timed out. Please try again.'']"
proof -
  let ?s = "startEstimateGeneration \<lparr>contractorId = Some ''c1''\<rparr> ''lead-1'' None initial_session"
  have nt: "\<forall>n::nat. nonTerminal ((\<lambda>n. QueryData None) n)" by (simp add: nonTerminal_def)
  have len: "0 < length (intervals ?s)"
    by (simp add: startEstimateGeneration_def startEstimateGeneration_resume_def
        startEstimateGeneration_begin_def invokeBody_def initial_session_def Let_def)
  have p: "intervals ?s ! 0 = \<lparr>leadId = ''lead-1'', timeElapsed = 0, cleared = False\<rparr>"
    by (simp add: startEstimateGeneration_def startEstimateGeneration_resume_def
        startEstimateGeneration_begin_def invokeBody_def initial_session_def Let_def)
  have ts: "toasts ?s = []"
    by (simp add: startEstimateGeneration_def startEstimateGeneration_resume_def
        startEstimateGeneration_begin_def invokeBody_def initial_session_def Let_def)
  from poll_timeout_after_40_ticks [OF nt len p] show ?thesis
    using nt len by (simp add: ts error_toast_def)
qed

section \<open>Poll ticks that find no row, and poll ticks whose query fails\<close>

text \<open>
  C6, as the code has it. On a tick that queries (the timer is live and the ceiling is not
  reached): when the query returns no row, the tick logs the query and does nothing else,
  and the timer stays live; when the query fails, the timer is cleared at once, the
  failed query is the only call of the tick, \<open>isGeneratingEstimate\<close> is false, the stage
  is unchanged, later firings of the timer do nothing, and one notification is surfaced.
  Its text is the failure's message when the failure is an instance of \<open>Error\<close>, and
  the fixed text \<open>Failed to generate estimate. Please try again.\<close> for any other value.
\<close>

theorem poll_tick_no_row_and_query_failure:
  assumes "i < length (intervals s)" and "\<not> cleared (intervals s ! i)"
    and "timeElapsed (intervals s ! i) + POLL_INTERVAL < ESTIMATE_TIMEOUT"
  shows "intervalTick i (QueryData None) s =
           s\<lparr>calls := calls s @ [Queried (leadId (intervals s ! i)) (QueryData None)],
             intervals := (intervals s)
               [i := (intervals s ! i)\<lparr>timeElapsed := timeElapsed (intervals s ! i) + POLL_INTERVAL\<rparr>]\<rparr> \<and>
         \<not> cleared (intervals (intervalTick i (QueryData None) s) ! i) \<and>
         cleared (intervals (intervalTick i (QueryError err) s) ! i) \<and>
         \<not> isGeneratingEstimate (intervalTick i (QueryError err) s) \<and>
         stage (intervalTick i (QueryError err) s) = stage s \<and>
         calls (intervalTick i (QueryError err) s) =
           calls s @ [Queried (leadId (intervals s ! i)) (QueryError err)] \<and>
         toasts (intervalTick i (QueryError err) s) =
           toasts s @
             [error_toast (case err of
                             ErrorInstance msg \<Rightarrow> msg
                           | PlainObject msg \<Rightarrow> ''Failed to generate estimate. Please try again.'')] \<and>
         intervalTick i q (intervalTick i (QueryError err) s) = intervalTick i (QueryError err) s \<and>
         runInterval i env n (intervalTick i (QueryError err) s) =
           (n, intervalTick i (QueryError err) s)"
proof -
  have nt: "nonTerminal (QueryData None)" by (simp add: nonTerminal_def)
  note ok = intervalTick_nonTerminal [OF assms nt]
  note bad = intervalTick_queryError [OF assms, of err]
  have stop: "\<not> (i < length (intervals (intervalTick i (QueryError err) s)) \<and>
                \<not> cleared (intervals (intervalTick i (QueryError err) s) ! i))"
    using assms(1) by (simp add: bad)
  show ?thesis
  proof (intro conjI)
    show "intervalTick i (QueryData None) s =
           s\<lparr>calls := calls s @ [Queried (leadId (intervals s ! i)) (QueryData None)],
             intervals := (intervals s)
               [i := (intervals s ! i)\<lparr>timeElapsed := timeElapsed (intervals s ! i) + POLL_INTERVAL\<rparr>]\<rparr>"
      by (rule ok)
    show "\<not> cleared (intervals (intervalTick i (QueryData None) s) ! i)"
      using assms(1) assms(2) by (simp add: ok)
    show "cleared (intervals (intervalTick i (QueryError err) s) ! i)"
      using assms(1) by (simp add: bad)
    show "\<not> isGeneratingEstimate (intervalTick i (QueryError err) s)"
      by (simp add: bad)
    show "stage (intervalTick i (QueryError err) s) = stage s"
      by (simp add: bad)
    show "calls (intervalTick i (QueryError err) s) =
           calls s @ [Queried (leadId (intervals s ! i)) (QueryError err)]"
      by (simp add: bad)
    show "toasts (intervalTick i (QueryError err) s) =
           toasts s @
             [error_toast (case err of
                             ErrorInstance msg \<Rightarrow> msg
                           | PlainObject msg \<Rightarrow> ''Failed to generate estimate. Please try again.'')]"
      by (simp add: bad)
    show "intervalTick i q (intervalTick i (QueryError err) s) = intervalTick i (QueryError err) s"
      by (rule intervalTick_cleared [OF stop])
    show "runInterval i env n (intervalTick i (QueryError err) s) =
           (n, intervalTick i (QueryError err) s)"
      by (rule runInterval_stop [OF stop])
  qed
qed

text \<open>The session of the examples: a job just started for the lead \<open>lead-1\<close>.\<close>

lemma started_session:
  "startEstimateGeneration \<lparr>contractorId = Some ''c1''\<rparr> ''lead-1'' None initial_session =
     \<lparr>stage = Photo, uploadedImageUrl = None, uploadedPhotos = [], projectDescription = [],
      currentLeadId = None, selectedCategory = None, completedCategories = [],
      matchedQuestionSets = [], progress = 0, estimate = JNull, isLoading = True,
      isGeneratingEstimate = True, answersState = [], toasts = [],
      calls = [Invoked \<lparr>body_leadId = ''lead-1'', body_contractorId = Some ''c1'',
                         body_projectDescription = [], body_category = None,
                         body_imageUrl = None, body_projectImages = []\<rparr> None],
      intervals = [\<lparr>leadId = ''lead-1'', timeElapsed = 0, cleared = False\<rparr>]\<rparr>"
  by (simp add: startEstimateGeneration_def startEstimateGeneration_resume_def
      startEstimateGeneration_begin_def invokeBody_def initial_session_def Let_def)

theorem poll_tick_no_row_and_query_failure_witness:
  "0 < length (intervals (startEstimateGeneration \<lparr>contractorId = Some ''c1''\<rparr> ''lead-1'' None
                            initial_session)) \<and>
   \<not> cleared (intervals (startEstimateGeneration \<lparr>contractorId = Some ''c1''\<rparr> ''lead-1'' None
                            initial_session) ! 0) \<and>
   map description
     (toasts (intervalTick 0 (QueryError (ErrorInstance ''connection refused''))
        (startEstimateGeneration \<lparr>contractorId = Some ''c1''\<rparr> ''lead-1'' None initial_session)))
     = [''connection refused'']"
proof -
  let ?s = "startEstimateGeneration \<lparr>contractorId = Some ''c1''\<rparr> ''lead-1'' None initial_session"
  have len: "0 < length (intervals ?s)" by (simp add: started_session)
  have act: "\<not> cleared (intervals ?s ! 0)" by (simp add: started_session)
  have te: "timeElapsed (intervals ?s ! 0) + POLL_INTERVAL < ESTIMATE_TIMEOUT"
    by (simp add: started_session POLL_INTERVAL_def ESTIMATE_TIMEOUT_def)
  have ts: "toasts ?s = []" by (simp add: started_session)
  from poll_tick_no_row_and_query_failure [OF len act te, of "ErrorInstance ''connection refused''"]
  have "toasts (intervalTick 0 (QueryError (ErrorInstance ''connection refused'')) ?s) =
          toasts ?s @ [error_toast ''connection refused'']"
    by simp
  with len act show ?thesis by (simp add: ts error_toast_def)
qed

text \<open>
  The sentence of the specification fails where the failed query's error is not an
  instance of \<open>Error\<close>: the error carries the backend's message \<open>connection refused\<close>, and the
  notification shows the generic text.
\<close>

theorem poll_query_failure_generic_text_counterexample:
  "map description
     (toasts (intervalTick 0 (QueryError (PlainObject ''connection refused''))
        (startEstimateGeneration \<lparr>contractorId = Some ''c1''\<rparr> ''lead-1'' None initial_session)))
     = [''Failed to generate estimate. Please try again.'']"
  by (simp add: started_session intervalTick_def pollTick_def
      checkEstimateStatus_def toast_def error_toast_def Let_def
      POLL_INTERVAL_def ESTIMATE_TIMEOUT_def)

section \<open>Poll ticks that find a complete lead\<close>

lemma truthy_present: "truthy d \<Longrightarrow> d \<noteq> JNull"
  by (cases d) simp_all

lemma intervalTick_keeps_stage_and_estimate:
  assumes "\<not> (queryingTick i s \<and>
              (\<exists>row. q = QueryData (Some row) \<and> status row = ''complete'' \<and>
                     truthy (estimate_data row)))"
  shows "stage (intervalTick i q s) = stage s \<and> estimate (intervalTick i q s) = estimate s"
  using assms
  by (auto simp: queryingTick_def live_def intervalTick_def pollTick_def checkEstimateStatus_def
      toast_def Let_def
      split: prod.splits sum.splits if_splits query_result.splits option.splits)

lemma intervalTick_flag:
  "(live i (intervalTick i q s) \<longrightarrow>
      isGeneratingEstimate (intervalTick i q s) = isGeneratingEstimate s) \<and>
   (isGeneratingEstimate (intervalTick i q s) \<longrightarrow> isGeneratingEstimate s)"
  by (auto simp: live_def intervalTick_def pollTick_def checkEstimateStatus_def
      toast_def Let_def
      split: prod.splits sum.splits if_splits query_result.splits option.splits)

text \<open>
  C9. On a poll tick that queries the lead and finds it with status \<open>complete\<close> and no
  estimate data, \<open>checkEstimateStatus\<close> returns false, the tick logs the query and adds
  the interval to the timer's elapsed time and does nothing else: the timer stays live,
  and the stage, the estimate and \<open>isGeneratingEstimate\<close> are as they were. A tick
  changes the stage or the stored estimate only when it queries the lead and finds it with
  status \<open>complete\<close> and estimate data that is present; such a tick stores the data as
  the estimate, sets \<open>isGeneratingEstimate\<close> to false, sets the stage to \<open>estimate\<close>
  and clears the timer. No tick sets \<open>isGeneratingEstimate\<close> to true, and a tick that
  leaves the timer live leaves the flag as it was. When the data is present and truthy, the
  tick that finds it does all of this, and \<open>checkEstimateStatus\<close> returns true.
\<close>

theorem complete_needs_estimate_data:
  "(queryingTick i s \<and> status lead = ''complete'' \<and> estimate_data lead = JNull \<longrightarrow>
      checkEstimateStatus (leadId (intervals s ! i)) (QueryData (Some lead)) s =
        (Inr False,
         s\<lparr>calls := calls s @ [Queried (leadId (intervals s ! i)) (QueryData (Some lead))]\<rparr>) \<and>
      intervalTick i (QueryData (Some lead)) s =
        s\<lparr>calls := calls s @ [Queried (leadId (intervals s ! i)) (QueryData (Some lead))],
          intervals := (intervals s)
            [i := (intervals s ! i)\<lparr>timeElapsed := timeElapsed (intervals s ! i) + POLL_INTERVAL\<rparr>]\<rparr> \<and>
      live i (intervalTick i (QueryData (Some lead)) s) \<and>
      stage (intervalTick i (QueryData (Some lead)) s) = stage s \<and>
      estimate (intervalTick i (QueryData (Some lead)) s) = estimate s \<and>
      isGeneratingEstimate (intervalTick i (QueryData (Some lead)) s) = isGeneratingEstimate s) \<and>
   (stage (intervalTick i q s) \<noteq> stage s \<or> estimate (intervalTick i q s) \<noteq> estimate s \<longrightarrow>
      queryingTick i s \<and>
      (\<exists>row. q = QueryData (Some row) \<and> status row = ''complete'' \<and>
             estimate_data row \<noteq> JNull \<and> truthy (estimate_data row) \<and>
             estimate (intervalTick i q s) = estimate_data row \<and>
             \<not> isGeneratingEstimate (intervalTick i q s) \<and>
             stage (intervalTick i q s) = Estimate \<and>
             \<not> live i (intervalTick i q s))) \<and>
   (live i (intervalTick i q s) \<longrightarrow>
      isGeneratingEstimate (intervalTick i q s) = isGeneratingEstimate s) \<and>
   (isGeneratingEstimate (intervalTick i q s) \<longrightarrow> isGeneratingEstimate s) \<and>
   (queryingTick i s \<and> status lead = ''complete'' \<and> truthy (estimate_data lead) \<longrightarrow>
      checkEstimateStatus (leadId (intervals s ! i)) (QueryData (Some lead)) s =
        (Inr True,
         s\<lparr>calls := calls s @ [Queried (leadId (intervals s ! i)) (QueryData (Some lead))],
           estimate := estimate_data lead, isGeneratingEstimate := False, stage := Estimate\<rparr>) \<and>
      intervalTick i (QueryData (Some lead)) s =
        s\<lparr>calls := calls s @ [Queried (leadId (intervals s ! i)) (QueryData (Some lead))],
          estimate := estimate_data lead,
          isGeneratingEstimate := False,
          stage := Estimate,
          intervals := (intervals s)
            [i := (intervals s ! i)\<lparr>timeElapsed := timeElapsed (intervals s ! i) + POLL_INTERVAL,
                                     cleared := True\<rparr>]\<rparr>)"
proof (intro conjI impI)
  assume a: "queryingTick i s \<and> status lead = ''complete'' \<and> estimate_data lead = JNull"
  then have nt: "nonTerminal (QueryData (Some lead))" by (simp add: nonTerminal_def)
  from a have len: "i < length (intervals s)" and act: "\<not> cleared (intervals s ! i)"
    and te: "timeElapsed (intervals s ! i) + POLL_INTERVAL < ESTIMATE_TIMEOUT"
    by (simp_all add: queryingTick_def live_def)
  note tick = intervalTick_nonTerminal [OF len act te nt]
  show "checkEstimateStatus (leadId (intervals s ! i)) (QueryData (Some lead)) s =
        (Inr False,
         s\<lparr>calls := calls s @ [Queried (leadId (intervals s ! i)) (QueryData (Some lead))]\<rparr>)"
    by (rule checkEstimateStatus_nonTerminal [OF nt])
  show "intervalTick i (QueryData (Some lead)) s =
        s\<lparr>calls := calls s @ [Queried (leadId (intervals s ! i)) (QueryData (Some lead))],
          intervals := (intervals s)
            [i := (intervals s ! i)\<lparr>timeElapsed := timeElapsed (intervals s ! i) + POLL_INTERVAL\<rparr>]\<rparr>"
    by (rule tick)
  show "live i (intervalTick i (QueryData (Some lead)) s)"
    using len act by (simp add: tick live_def)
  show "stage (intervalTick i (QueryData (Some lead)) s) = stage s" by (simp add: tick)
  show "estimate (intervalTick i (QueryData (Some lead)) s) = estimate s" by (simp add: tick)
  show "isGeneratingEstimate (intervalTick i (QueryData (Some lead)) s) = isGeneratingEstimate s"
    by (simp add: tick)
next
  assume changed: "stage (intervalTick i q s) \<noteq> stage s \<or>
                   estimate (intervalTick i q s) \<noteq> estimate s"
  have obs: "queryingTick i s \<and>
              (\<exists>row. q = QueryData (Some row) \<and> status row = ''complete'' \<and>
                     truthy (estimate_data row))"
  proof (rule ccontr)
    assume "\<not> ?thesis"
    from intervalTick_keeps_stage_and_estimate [OF this] changed show False by simp
  qed
  then show "queryingTick i s" by simp
  from obs obtain row where q: "q = QueryData (Some row)" and st: "status row = ''complete''"
    and d: "truthy (estimate_data row)" by blast
  from obs have len: "i < length (intervals s)" and act: "\<not> cleared (intervals s ! i)"
    and te: "timeElapsed (intervals s ! i) + POLL_INTERVAL < ESTIMATE_TIMEOUT"
    by (simp_all add: queryingTick_def live_def)
  note tick = intervalTick_complete [OF len act te st d]
  show "\<exists>row. q = QueryData (Some row) \<and> status row = ''complete'' \<and>
             estimate_data row \<noteq> JNull \<and> truthy (estimate_data row) \<and>
             estimate (intervalTick i q s) = estimate_data row \<and>
             \<not> isGeneratingEstimate (intervalTick i q s) \<and>
             stage (intervalTick i q s) = Estimate \<and>
             \<not> live i (intervalTick i q s)"
    using q st d truthy_present [OF d] len by (simp add: tick live_def)
next
  assume "live i (intervalTick i q s)"
  then show "isGeneratingEstimate (intervalTick i q s) = isGeneratingEstimate s"
    using intervalTick_flag [of i q s] by blast
next
  assume "isGeneratingEstimate (intervalTick i q s)"
  then show "isGeneratingEstimate s"
    using intervalTick_flag [of i q s] by blast
next
  assume a: "queryingTick i s \<and> status lead = ''complete'' \<and> truthy (estimate_data lead)"
  then have len: "i < length (intervals s)" and act: "\<not> cleared (intervals s ! i)"
    and te: "timeElapsed (intervals s ! i) + POLL_INTERVAL < ESTIMATE_TIMEOUT"
    and st: "status lead = ''complete''" and d: "truthy (estimate_data lead)"
    by (simp_all add: queryingTick_def live_def)
  show "checkEstimateStatus (leadId (intervals s ! i)) (QueryData (Some lead)) s =
        (Inr True,
         s\<lparr>calls := calls s @ [Queried (leadId (intervals s ! i)) (QueryData (Some lead))],
           estimate := estimate_data lead, isGeneratingEstimate := False, stage := Estimate\<rparr>)"
    using st d by (simp add: checkEstimateStatus_def Let_def)
  show "intervalTick i (QueryData (Some lead)) s =
        s\<lparr>calls := calls s @ [Queried (leadId (intervals s ! i)) (QueryData (Some lead))],
          estimate := estimate_data lead,
          isGeneratingEstimate := False,
          stage := Estimate,
          intervals := (intervals s)
            [i := (intervals s ! i)\<lparr>timeElapsed := timeElapsed (intervals s ! i) + POLL_INTERVAL,
                                     cleared := True\<rparr>]\<rparr>"
    by (rule intervalTick_complete [OF len act te st d])
qed

text \<open>
  The job started for \<open>lead-1\<close> in a fresh session. A tick that finds the lead complete
  with no estimate data leaves the stage at \<open>photo\<close> and the timer live; a tick that finds
  it complete with its estimate sets the stage to \<open>estimate\<close> and clears the flag.
\<close>

theorem complete_needs_estimate_data_witness:
  "queryingTick 0
     (startEstimateGeneration \<lparr>contractorId = Some ''c1''\<rparr> ''lead-1'' None initial_session) \<and>
   status \<lparr>estimate_data = JNull, status = ''complete'', error_message = None\<rparr> = ''complete'' \<and>
   truthy (estimate_data \<lparr>estimate_data = JObj [(''total'', JNum 1200)], status = ''complete'',
                           error_message = None\<rparr>) \<and>
   stage (intervalTick 0
            (QueryData (Some \<lparr>estimate_data = JNull, status = ''complete'', error_message = None\<rparr>))
            (startEstimateGeneration \<lparr>contractorId = Some ''c1''\<rparr> ''lead-1'' None initial_session))
     = Photo \<and>
   live 0 (intervalTick 0
            (QueryData (Some \<lparr>estimate_data = JNull, status = ''complete'', error_message = None\<rparr>))
            (startEstimateGeneration \<lparr>contractorId = Some ''c1''\<rparr> ''lead-1'' None initial_session)) \<and>
   stage (intervalTick 0
            (QueryData (Some \<lparr>estimate_data = JObj [(''total'', JNum 1200)], status = ''complete'',
                              error_message = None\<rparr>))
            (startEstimateGeneration \<lparr>contractorId = Some ''c1''\<rparr> ''lead-1'' None initial_session))
     = Estimate \<and>
   \<not> isGeneratingEstimate (intervalTick 0
            (QueryData (Some \<lparr>estimate_data = JObj [(''total'', JNum 1200)], status = ''complete'',
                              error_message = None\<rparr>))
            (startEstimateGeneration \<lparr>contractorId = Some ''c1''\<rparr> ''lead-1'' None initial_session))"
proof -
  let ?s = "startEstimateGeneration \<lparr>contractorId = Some ''c1''\<rparr> ''lead-1'' None initial_session"
  let ?absent = "\<lparr>estimate_data = JNull, status = ''complete'', error_message = None\<rparr>"
  let ?present = "\<lparr>estimate_data = JObj [(''total'', JNum 1200)], status = ''complete'',
                   error_message = None\<rparr>"
  have qt: "queryingTick 0 ?s"
    by (simp add: queryingTick_def live_def started_session POLL_INTERVAL_def ESTIMATE_TIMEOUT_def)
  have st: "stage ?s = Photo" by (simp add: started_session)
  have ab: "status ?absent = ''complete'' \<and> estimate_data ?absent = JNull" by simp
  have pr: "status ?present = ''complete'' \<and> truthy (estimate_data ?present)" by simp
  from complete_needs_estimate_data [where i = 0 and s = ?s and lead = ?absent] qt ab
  have a: "stage (intervalTick 0 (QueryData (Some ?absent)) ?s) = stage ?s \<and>
           live 0 (intervalTick 0 (QueryData (Some ?absent)) ?s)"
    by blast
  from complete_needs_estimate_data [where i = 0 and s = ?s and lead = ?present] qt pr
  have c: "intervalTick 0 (QueryData (Some ?present)) ?s =
        ?s\<lparr>calls := calls ?s @ [Queried (leadId (intervals ?s ! 0)) (QueryData (Some ?present))],
          estimate := estimate_data ?present,
          isGeneratingEstimate := False,
          stage := Estimate,
          intervals := (intervals ?s)
            [0 := (intervals ?s ! 0)\<lparr>timeElapsed := timeElapsed (intervals ?s ! 0) + POLL_INTERVAL,
                                     cleared := True\<rparr>]\<rparr>"
    by blast
  have c1: "stage (intervalTick 0 (QueryData (Some ?present)) ?s) = Estimate"
    by (subst c) simp
  have c2: "\<not> isGeneratingEstimate (intervalTick 0 (QueryData (Some ?present)) ?s)"
    by (subst c) simp
  from qt a c1 c2 st show ?thesis by simp
qed

section \<open>Submitting the description\<close>

text \<open>
  C7, as the code has it. When the consolidation yields no set, the stage becomes
  \<open>category\<close> (not \<open>questions\<close>) and nothing but the description is stored. When it
  yields at least one set, the sets are stored as the matched sets and the stage becomes
  \<open>questions\<close>; the selected category becomes the category of the first set when that
  category is not empty, and stays as it was when it is empty.
\<close>

theorem handleDescriptionSubmit_routes:
  "stage (handleDescriptionSubmit descr (Consolidated []) s) = Category \<and>
   stage (handleDescriptionSubmit descr (Consolidated []) s) \<noteq> Questions \<and>
   matchedQuestionSets (handleDescriptionSubmit descr (Consolidated []) s) = matchedQuestionSets s \<and>
   selectedCategory (handleDescriptionSubmit descr (Consolidated []) s) = selectedCategory s \<and>
   stage (handleDescriptionSubmit descr (Consolidated (first # rest)) s) = Questions \<and>
   matchedQuestionSets (handleDescriptionSubmit descr (Consolidated (first # rest)) s) = first # rest \<and>
   selectedCategory (handleDescriptionSubmit descr (Consolidated (first # rest)) s) =
     (if category first = [] then selectedCategory s else Some (category first)) \<and>
   projectDescription (handleDescriptionSubmit descr (Consolidated sets) s) = descr"
  by (simp add: handleDescriptionSubmit_def Let_def split: list.split)

text \<open>
  The sentence of the specification fails where the first set has an empty category: the sets are
  stored and the stage is \<open>questions\<close>, and the selected category is not set from the
  first set.
\<close>

theorem handleDescriptionSubmit_empty_category_counterexample:
  "stage (handleDescriptionSubmit ''leaky roof''
            (Consolidated [\<lparr>category = [], questions = [JStr ''Q1'']\<rparr>]) initial_session)
     = Questions \<and>
   selectedCategory (handleDescriptionSubmit ''leaky roof''
            (Consolidated [\<lparr>category = [], questions = [JStr ''Q1'']\<rparr>]) initial_session)
     \<noteq> Some (category \<lparr>category = [], questions = [JStr ''Q1'']\<rparr>)"
  by (simp add: handleDescriptionSubmit_def initial_session_def Let_def)

section \<open>Failures of the lead submission\<close>

lemma startEstimateGeneration_frame:
  "stage (startEstimateGeneration config lid invErr s) = stage s \<and>
   currentLeadId (startEstimateGeneration config lid invErr s) = currentLeadId s \<and>
   estimate (startEstimateGeneration config lid invErr s) = estimate s \<and>
   answersState (startEstimateGeneration config lid invErr s) = answersState s \<and>
   matchedQuestionSets (startEstimateGeneration config lid invErr s) = matchedQuestionSets s"
  by (simp add: startEstimateGeneration_def startEstimateGeneration_resume_def
      startEstimateGeneration_begin_def invokeBody_def toast_def Let_def split: option.split)

lemma startEstimateGeneration_flag:
  "isGeneratingEstimate (startEstimateGeneration config lid invErr s) = (invErr = None)"
  by (simp add: startEstimateGeneration_def startEstimateGeneration_resume_def
      startEstimateGeneration_begin_def invokeBody_def toast_def Let_def split: option.split)

lemma contactFailed_simps:
  "stage (contactFailed s) = stage s"
  "isGeneratingEstimate (contactFailed s) = False"
  "toasts (contactFailed s) =
     toasts s @ [error_toast ''Failed to process your information. Please try again.'']"
  "calls (contactFailed s) = calls s"
  "currentLeadId (contactFailed s) = currentLeadId s"
  by (simp_all add: contactFailed_def toast_def)

text \<open>
  C5. With a contractor id configured, a lead submission fails when the insert returns an
  error or no lead id, or when the update returns an error. In the questions-complete
  path the failure surfaces a notification and the stage becomes \<open>questions\<close>. In the
  contact path (the insert of a session that holds no lead id, the update of one that
  holds one) and in the skip path it surfaces a notification, leaves the stage as it was
  and leaves \<open>isGeneratingEstimate\<close> false.
\<close>

theorem submission_failure_handling:
  assumes "truthy_str (contractorId config)"
  shows "(insertedId ins = None \<longrightarrow>
            stage (handleQuestionComplete config ans ins invErr s) = Questions \<and>
            toasts (handleQuestionComplete config ans ins invErr s) =
              toasts s @ [error_toast ''Failed to start estimate generation. Please try again.'']) \<and>
         (heldLeadId s = None \<and> insertedId ins = None \<longrightarrow>
            stage (handleContactSubmit config contactData ins upd invErr s) = stage s \<and>
            \<not> isGeneratingEstimate (handleContactSubmit config contactData ins upd invErr s) \<and>
            toasts (handleContactSubmit config contactData ins upd invErr s) =
              toasts s @ [error_toast ''Failed to process your information. Please try again.'']) \<and>
         (heldLeadId s = Some lid \<and> upd = Some err \<longrightarrow>
            stage (handleContactSubmit config contactData ins upd invErr s) = stage s \<and>
            \<not> isGeneratingEstimate (handleContactSubmit config contactData ins upd invErr s) \<and>
            toasts (handleContactSubmit config contactData ins upd invErr s) =
              toasts s @ [error_toast ''Failed to process your information. Please try again.'']) \<and>
         (insertedId ins = None \<longrightarrow>
            stage (handleSkip config ins invErr s) = stage s \<and>
            \<not> isGeneratingEstimate (handleSkip config ins invErr s) \<and>
            toasts (handleSkip config ins invErr s) =
              toasts s @ [error_toast ''Failed to process your request. Please try again.''])"
proof (intro conjI impI)
  assume "insertedId ins = None"
  then show "stage (handleQuestionComplete config ans ins invErr s) = Questions"
    and "toasts (handleQuestionComplete config ans ins invErr s) =
              toasts s @ [error_toast ''Failed to start estimate generation. Please try again.'']"
    using assms by (simp_all add: handleQuestionComplete_def toast_def Let_def)
next
  assume "heldLeadId s = None \<and> insertedId ins = None"
  then show "stage (handleContactSubmit config contactData ins upd invErr s) = stage s"
    and "\<not> isGeneratingEstimate (handleContactSubmit config contactData ins upd invErr s)"
    and "toasts (handleContactSubmit config contactData ins upd invErr s) =
              toasts s @ [error_toast ''Failed to process your information. Please try again.'']"
    using assms by (simp_all add: handleContactSubmit_def contactFailed_simps Let_def)
next
  assume "heldLeadId s = Some lid \<and> upd = Some err"
  then show "stage (handleContactSubmit config contactData ins upd invErr s) = stage s"
    and "\<not> isGeneratingEstimate (handleContactSubmit config contactData ins upd invErr s)"
    and "toasts (handleContactSubmit config contactData ins upd invErr s) =
              toasts s @ [error_toast ''Failed to process your information. Please try again.'']"
    using assms by (simp_all add: handleContactSubmit_def contactFailed_simps Let_def)
next
  assume "insertedId ins = None"
  then show "stage (handleSkip config ins invErr s) = stage s"
    and "\<not> isGeneratingEstimate (handleSkip config ins invErr s)"
    and "toasts (handleSkip config ins invErr s) =
              toasts s @ [error_toast ''Failed to process your request. Please try again.'']"
    using assms by (simp_all add: handleSkip_def toast_def Let_def)
qed

text \<open>
  A session at the questions stage whose insert fails, and a session at the contact
  stage that holds the lead \<open>lead-1\<close> and whose update fails.
\<close>

theorem submission_failure_handling_witness:
  "truthy_str (contractorId \<lparr>contractorId = Some ''c1''\<rparr>) \<and>
   insertedId (InsertError (PlainObject ''insert failed'')) = None \<and>
   heldLeadId (initial_session\<lparr>stage := Contact, currentLeadId := Some ''lead-1''\<rparr>) = Some ''lead-1'' \<and>
   stage (handleQuestionComplete \<lparr>contractorId = Some ''c1''\<rparr> []
            (InsertError (PlainObject ''insert failed'')) None
            (initial_session\<lparr>stage := Questions\<rparr>)) = Questions \<and>
   stage (handleContactSubmit \<lparr>contractorId = Some ''c1''\<rparr>
            \<lparr>fullName = ''Ann'', email = ''ann@example.org'', phone = ''555'', address = ''1 Main St''\<rparr>
            (InsertError (PlainObject ''insert failed'')) (Some (PlainObject ''update failed'')) None
            (initial_session\<lparr>stage := Contact, currentLeadId := Some ''lead-1''\<rparr>)) = Contact \<and>
   \<not> isGeneratingEstimate (handleSkip \<lparr>contractorId = Some ''c1''\<rparr>
            (InsertError (PlainObject ''insert failed'')) None
            (initial_session\<lparr>stage := Contact\<rparr>))"
proof -
  let ?cfg = "\<lparr>contractorId = Some ''c1''\<rparr>"
  let ?ins = "InsertError (PlainObject ''insert failed'')"
  let ?s = "initial_session\<lparr>stage := Contact, currentLeadId := Some ''lead-1''\<rparr>"
  let ?c = "\<lparr>fullName = ''Ann'', email = ''ann@example.org'', phone = ''555'', address = ''1 Main St''\<rparr>"
  have cfg: "truthy_str (contractorId ?cfg)" by (simp add: truthy_str_def)
  have ins: "insertedId ?ins = None" by (simp add: insertedId_def)
  have held: "heldLeadId ?s = Some ''lead-1''" by (simp add: heldLeadId_def truthy_str_def)
  from submission_failure_handling [OF cfg, where ins = ?ins and ans = "[]" and invErr = None
      and s = "initial_session\<lparr>stage := Questions\<rparr>"] ins
  have a: "stage (handleQuestionComplete ?cfg [] ?ins None (initial_session\<lparr>stage := Questions\<rparr>)) = Questions"
    by blast
  from submission_failure_handling [OF cfg, where s = ?s and lid = "''lead-1''"
      and upd = "Some (PlainObject ''update failed'')" and err = "PlainObject ''update failed''"
      and contactData = ?c and ins = ?ins and invErr = None] held
  have b: "stage (handleContactSubmit ?cfg ?c ?ins (Some (PlainObject ''update failed'')) None ?s) = stage ?s"
    by blast
  from submission_failure_handling [OF cfg, where ins = ?ins and invErr = None
      and s = "initial_session\<lparr>stage := Contact\<rparr>"] ins
  have c: "\<not> isGeneratingEstimate (handleSkip ?cfg ?ins None (initial_session\<lparr>stage := Contact\<rparr>))"
    by blast
  from a b c cfg ins held show ?thesis by simp
qed

section \<open>One lead per session\<close>

lemma insertCalls_append: "insertCalls (xs @ ys) = insertCalls xs @ insertCalls ys"
  by (simp add: insertCalls_def)

lemma leadsCreated_append: "leadsCreated (xs @ ys) = leadsCreated xs + leadsCreated ys"
  by (simp add: leadsCreated_def)

lemma startEstimateGeneration_calls:
  "calls (startEstimateGeneration config lid invErr s) =
     calls s @ [Invoked (invokeBody config lid s) invErr]"
  by (simp add: startEstimateGeneration_def startEstimateGeneration_resume_def
      startEstimateGeneration_begin_def invokeBody_def toast_def Let_def split: option.split)

lemma invokeBody_frame:
  "invokeBody config lid (s\<lparr>calls := c\<rparr>) = invokeBody config lid s"
  "invokeBody config lid (s\<lparr>currentLeadId := l\<rparr>) = invokeBody config lid s"
  "invokeBody config lid (s\<lparr>isGeneratingEstimate := g\<rparr>) = invokeBody config lid s"
  "invokeBody config lid (s\<lparr>stage := st\<rparr>) = invokeBody config lid s"
  "invokeBody config lid (s\<lparr>answersState := a\<rparr>) = invokeBody config lid s"
  by (simp_all add: invokeBody_def)




















section \<open>The flag of the job in flight\<close>

text \<open>
  What the code does with \<open>isGeneratingEstimate\<close>. The flag is true as soon as
  \<open>startEstimateGeneration\<close> is called, and still true when the invocation has succeeded
  and the timer is set. It is false after a failed invocation; after any tick that clears
  a live timer, and so after a tick that reaches the ceiling, a tick that finds the status
  \<open>error\<close>, a tick that finds the status \<open>complete\<close> with its estimate, and a tick whose
  query fails; and after a failed insert or update in the contact path and a failed
  insert in the skip path. In the questions-complete path a failed insert leaves the flag
  as it was when the trigger was called: the \<open>catch\<close> of that path does not write it.
\<close>

theorem isGeneratingEstimate_lifecycle:
  "isGeneratingEstimate (startEstimateGeneration_begin s) \<and>
   isGeneratingEstimate (startEstimateGeneration config lid None s) \<and>
   \<not> isGeneratingEstimate (startEstimateGeneration config lid (Some err) s) \<and>
   (live i s \<and> \<not> live i (intervalTick i q s) \<longrightarrow> \<not> isGeneratingEstimate (intervalTick i q s)) \<and>
   (live i s \<and> ESTIMATE_TIMEOUT \<le> timeElapsed (intervals s ! i) + POLL_INTERVAL \<longrightarrow>
      \<not> live i (intervalTick i q s) \<and> \<not> isGeneratingEstimate (intervalTick i q s)) \<and>
   (live i s \<and> timeElapsed (intervals s ! i) + POLL_INTERVAL < ESTIMATE_TIMEOUT \<and>
    status lead = ''error'' \<longrightarrow>
      \<not> live i (intervalTick i (QueryData (Some lead)) s) \<and>
      \<not> isGeneratingEstimate (intervalTick i (QueryData (Some lead)) s)) \<and>
   (live i s \<and> timeElapsed (intervals s ! i) + POLL_INTERVAL < ESTIMATE_TIMEOUT \<and>
    status lead = ''complete'' \<and> truthy (estimate_data lead) \<longrightarrow>
      \<not> live i (intervalTick i (QueryData (Some lead)) s) \<and>
      \<not> isGeneratingEstimate (intervalTick i (QueryData (Some lead)) s)) \<and>
   (live i s \<and> timeElapsed (intervals s ! i) + POLL_INTERVAL < ESTIMATE_TIMEOUT \<longrightarrow>
      \<not> live i (intervalTick i (QueryError err) s) \<and>
      \<not> isGeneratingEstimate (intervalTick i (QueryError err) s)) \<and>
   (truthy_str (contractorId config) \<and> heldLeadId s = None \<and> insertedId ins = None \<longrightarrow>
      \<not> isGeneratingEstimate (handleContactSubmit config contactData ins upd invErr s)) \<and>
   (truthy_str (contractorId config) \<and> heldLeadId s = Some held \<and> upd = Some err \<longrightarrow>
      \<not> isGeneratingEstimate (handleContactSubmit config contactData ins upd invErr s)) \<and>
   (truthy_str (contractorId config) \<and> insertedId ins = None \<longrightarrow>
      \<not> isGeneratingEstimate (handleSkip config ins invErr s)) \<and>
   (insertedId ins = None \<longrightarrow>
      isGeneratingEstimate (handleQuestionComplete config ans ins invErr s) =
        isGeneratingEstimate s)"
proof (intro conjI impI)
  show "isGeneratingEstimate (startEstimateGeneration_begin s)"
    by (simp add: startEstimateGeneration_begin_def)
  show "isGeneratingEstimate (startEstimateGeneration config lid None s)"
    by (simp add: startEstimateGeneration_flag)
  show "\<not> isGeneratingEstimate (startEstimateGeneration config lid (Some err) s)"
    by (simp add: startEstimateGeneration_flag)
next
  assume "live i s \<and> \<not> live i (intervalTick i q s)"
  then show "\<not> isGeneratingEstimate (intervalTick i q s)"
    by (auto simp: live_def intervalTick_def pollTick_def checkEstimateStatus_def toast_def Let_def
        split: prod.splits sum.splits if_splits query_result.splits option.splits)
next
  assume "live i s \<and> ESTIMATE_TIMEOUT \<le> timeElapsed (intervals s ! i) + POLL_INTERVAL"
  then have len: "i < length (intervals s)" and act: "\<not> cleared (intervals s ! i)"
    and late: "ESTIMATE_TIMEOUT \<le> timeElapsed (intervals s ! i) + POLL_INTERVAL"
    by (simp_all add: live_def)
  note tick = intervalTick_timeout [OF len act late, of q]
  show "\<not> live i (intervalTick i q s)" using len by (simp add: tick live_def)
  show "\<not> isGeneratingEstimate (intervalTick i q s)" by (simp add: tick)
next
  assume "live i s \<and> timeElapsed (intervals s ! i) + POLL_INTERVAL < ESTIMATE_TIMEOUT \<and>
    status lead = ''error''"
  then have len: "i < length (intervals s)" and act: "\<not> cleared (intervals s ! i)"
    and early: "timeElapsed (intervals s ! i) + POLL_INTERVAL < ESTIMATE_TIMEOUT"
    and st: "status lead = ''error''"
    by (simp_all add: live_def)
  note tick = intervalTick_errorStatus [OF len act early st]
  show "\<not> live i (intervalTick i (QueryData (Some lead)) s)" using len by (simp add: tick live_def)
  show "\<not> isGeneratingEstimate (intervalTick i (QueryData (Some lead)) s)" by (simp add: tick)
next
  assume "live i s \<and> timeElapsed (intervals s ! i) + POLL_INTERVAL < ESTIMATE_TIMEOUT \<and>
    status lead = ''complete'' \<and> truthy (estimate_data lead)"
  then have len: "i < length (intervals s)" and act: "\<not> cleared (intervals s ! i)"
    and early: "timeElapsed (intervals s ! i) + POLL_INTERVAL < ESTIMATE_TIMEOUT"
    and st: "status lead = ''complete''" and d: "truthy (estimate_data lead)"
    by (simp_all add: live_def)
  note tick = intervalTick_complete [OF len act early st d]
  show "\<not> live i (intervalTick i (QueryData (Some lead)) s)" using len by (simp add: tick live_def)
  show "\<not> isGeneratingEstimate (intervalTick i (QueryData (Some lead)) s)" by (simp add: tick)
next
  assume "live i s \<and> timeElapsed (intervals s ! i) + POLL_INTERVAL < ESTIMATE_TIMEOUT"
  then have len: "i < length (intervals s)" and act: "\<not> cleared (intervals s ! i)"
    and early: "timeElapsed (intervals s ! i) + POLL_INTERVAL < ESTIMATE_TIMEOUT"
    by (simp_all add: live_def)
  note tick = intervalTick_queryError [OF len act early, of err]
  show "\<not> live i (intervalTick i (QueryError err) s)" using len by (simp add: tick live_def)
  show "\<not> isGeneratingEstimate (intervalTick i (QueryError err) s)" by (simp add: tick)
next
  assume "truthy_str (contractorId config) \<and> heldLeadId s = None \<and> insertedId ins = None"
  then show "\<not> isGeneratingEstimate (handleContactSubmit config contactData ins upd invErr s)"
    by (simp add: handleContactSubmit_def contactFailed_simps Let_def)
next
  assume "truthy_str (contractorId config) \<and> heldLeadId s = Some held \<and> upd = Some err"
  then show "\<not> isGeneratingEstimate (handleContactSubmit config contactData ins upd invErr s)"
    by (simp add: handleContactSubmit_def contactFailed_simps Let_def)
next
  assume "truthy_str (contractorId config) \<and> insertedId ins = None"
  then show "\<not> isGeneratingEstimate (handleSkip config ins invErr s)"
    by (simp add: handleSkip_def toast_def Let_def)
next
  assume "insertedId ins = None"
  then show "isGeneratingEstimate (handleQuestionComplete config ans ins invErr s) =
        isGeneratingEstimate s"
    by (simp add: handleQuestionComplete_def toast_def Let_def)
qed

text \<open>
  The job started for \<open>lead-1\<close> in a fresh session: the flag is true; a tick whose query
  fails clears the timer and the flag; a skip whose insert fails leaves the flag false.
\<close>

theorem isGeneratingEstimate_lifecycle_witness:
  "live 0 (startEstimateGeneration \<lparr>contractorId = Some ''c1''\<rparr> ''lead-1'' None initial_session) \<and>
   timeElapsed (intervals (startEstimateGeneration \<lparr>contractorId = Some ''c1''\<rparr> ''lead-1'' None
                             initial_session) ! 0) + POLL_INTERVAL < ESTIMATE_TIMEOUT \<and>
   truthy_str (contractorId \<lparr>contractorId = Some ''c1''\<rparr>) \<and>
   insertedId (InsertError (PlainObject ''insert failed'')) = None \<and>
   isGeneratingEstimate
     (startEstimateGeneration \<lparr>contractorId = Some ''c1''\<rparr> ''lead-1'' None initial_session) \<and>
   \<not> live 0 (intervalTick 0 (QueryError (PlainObject ''query failed''))
      (startEstimateGeneration \<lparr>contractorId = Some ''c1''\<rparr> ''lead-1'' None initial_session)) \<and>
   \<not> isGeneratingEstimate (intervalTick 0 (QueryError (PlainObject ''query failed''))
      (startEstimateGeneration \<lparr>contractorId = Some ''c1''\<rparr> ''lead-1'' None initial_session)) \<and>
   \<not> isGeneratingEstimate (handleSkip \<lparr>contractorId = Some ''c1''\<rparr>
      (InsertError (PlainObject ''insert failed'')) None
      (startEstimateGeneration \<lparr>contractorId = Some ''c1''\<rparr> ''lead-1'' None initial_session))"
proof -
  let ?cfg = "\<lparr>contractorId = Some ''c1''\<rparr>"
  let ?s = "startEstimateGeneration ?cfg ''lead-1'' None initial_session"
  let ?ins = "InsertError (PlainObject ''insert failed'')"
  have lv: "live 0 ?s" by (simp add: live_def started_session)
  have te: "timeElapsed (intervals ?s ! 0) + POLL_INTERVAL < ESTIMATE_TIMEOUT"
    by (simp add: started_session POLL_INTERVAL_def ESTIMATE_TIMEOUT_def)
  have cfg: "truthy_str (contractorId ?cfg)" by (simp add: truthy_str_def)
  have ins: "insertedId ?ins = None" by (simp add: insertedId_def)
  note th = isGeneratingEstimate_lifecycle [where s = initial_session and config = ?cfg
      and lid = "''lead-1''"]
  note th' = isGeneratingEstimate_lifecycle [where s = ?s and config = ?cfg and i = 0
      and err = "PlainObject ''query failed''" and ins = ?ins and invErr = None]
  from th have a: "isGeneratingEstimate ?s" by blast
  from th' lv te have b: "\<not> live 0 (intervalTick 0 (QueryError (PlainObject ''query failed'')) ?s) \<and>
      \<not> isGeneratingEstimate (intervalTick 0 (QueryError (PlainObject ''query failed'')) ?s)"
    by blast
  from th' cfg ins have c: "\<not> isGeneratingEstimate (handleSkip ?cfg ?ins None ?s)"
    by blast
  from lv te cfg ins a b c show ?thesis by blast
qed

text \<open>
  C1 at a failed insert of the questions-complete trigger. The questions are completed and
  the job for \<open>lead-1\<close> is started, so the flag is true; the questions are completed
  again and this insert fails. \<open>isGeneratingEstimate\<close> is still true after the failure:
  the \<open>catch\<close> of \<open>handleQuestionComplete\<close> does not clear it. In the same state a
  failed update in \<open>handleContactSubmit\<close> and a failed insert in \<open>handleSkip\<close> leave
  the flag false: their \<open>catch\<close> blocks clear it.
\<close>

theorem questions_insert_failure_keeps_flag:
  "insertedId (InsertError (PlainObject ''insert failed'')) = None \<and>
   isGeneratingEstimate
     (handleQuestionComplete \<lparr>contractorId = Some ''c1''\<rparr> []
        (InsertError (PlainObject ''insert failed'')) None
        (handleQuestionComplete \<lparr>contractorId = Some ''c1''\<rparr> []
           (InsertData (Some ''lead-1'')) None initial_session)) \<and>
   \<not> isGeneratingEstimate
     (handleContactSubmit \<lparr>contractorId = Some ''c1''\<rparr>
        \<lparr>fullName = ''Ann'', email = ''ann@example.org'', phone = ''555'', address = ''1 Main St''\<rparr>
        (InsertError (PlainObject ''insert failed'')) (Some (PlainObject ''update failed'')) None
        (handleQuestionComplete \<lparr>contractorId = Some ''c1''\<rparr> []
           (InsertData (Some ''lead-1'')) None initial_session)) \<and>
   \<not> isGeneratingEstimate
     (handleSkip \<lparr>contractorId = Some ''c1''\<rparr>
        (InsertError (PlainObject ''insert failed'')) None
        (handleQuestionComplete \<lparr>contractorId = Some ''c1''\<rparr> []
           (InsertData (Some ''lead-1'')) None initial_session))"
  by (simp add: handleQuestionComplete_def handleContactSubmit_def handleSkip_def
      contactFailed_def heldLeadId_def insertedId_def truthy_str_def Let_def toast_def
      startEstimateGeneration_flag startEstimateGeneration_frame)

section \<open>A missing contractor id\<close>

text \<open>
  With no contractor id configured, none of the three lead-creation triggers calls a
  gateway or changes the stage. \<open>handleQuestionComplete\<close> and \<open>handleContactSubmit\<close>
  surface a notification (and the second sets \<open>isGeneratingEstimate\<close> to false);
  \<open>handleSkip\<close> returns the session as it was, with no notification.
\<close>

theorem missing_contractor_id:
  assumes "\<not> truthy_str (contractorId config)"
  shows "handleQuestionComplete config ans ins invErr s =
           s\<lparr>toasts := toasts s @ [error_toast ''Contractor ID is required'']\<rparr> \<and>
         handleContactSubmit config contactData ins upd invErr s =
           s\<lparr>toasts := toasts s @
                [error_toast ''Failed to process your information. Please try again.''],
             isGeneratingEstimate := False\<rparr> \<and>
         handleSkip config ins invErr s = s"
  using assms
  by (simp add: handleQuestionComplete_def handleContactSubmit_def handleSkip_def
      contactFailed_def toast_def)

theorem missing_contractor_id_witness:
  "\<not> truthy_str (contractorId \<lparr>contractorId = Some []\<rparr>) \<and>
   calls (handleContactSubmit \<lparr>contractorId = Some []\<rparr>
            \<lparr>fullName = ''Ann'', email = ''ann@example.org'', phone = ''555'', address = ''1 Main St''\<rparr>
            (InsertData (Some ''lead-1'')) None None initial_session) = [] \<and>
   stage (handleQuestionComplete \<lparr>contractorId = Some []\<rparr> [] (InsertData (Some ''lead-1'')) None
            initial_session) = Photo"
proof -
  have cfg: "\<not> truthy_str (contractorId \<lparr>contractorId = Some []\<rparr>)"
    by (simp add: truthy_str_def)
  from missing_contractor_id [OF cfg] cfg show ?thesis
    by (simp add: initial_session_def)
qed

text \<open>
  C4 at the skip trigger, in the first state of a session with no contractor id: the
  session comes back unchanged and no notification was surfaced, where the
  questions-complete trigger, in the same state, surfaces one.
\<close>

theorem handleSkip_missing_contractor_silent:
  "handleSkip \<lparr>contractorId = None\<rparr> (InsertData (Some ''lead-1'')) None initial_session =
     initial_session \<and>
   toasts (handleSkip \<lparr>contractorId = None\<rparr> (InsertData (Some ''lead-1'')) None initial_session)
     = [] \<and>
   toasts (handleQuestionComplete \<lparr>contractorId = None\<rparr> [] (InsertData (Some ''lead-1'')) None
             initial_session)
     = [error_toast ''Contractor ID is required'']"
  by (simp add: handleSkip_def handleQuestionComplete_def truthy_str_def toast_def
      initial_session_def)

section \<open>The skip path\<close>

text \<open>
  With a contractor id configured and an insert that returns a lead, \<open>handleSkip\<close> makes
  one insert call, of a lead flagged as a test estimate whose category is the selected
  category, holds the returned id, starts the job and sets the stage to \<open>estimate\<close>,
  also when the invocation of the job fails.
\<close>

theorem handleSkip_creates_test_lead:
  assumes "truthy_str (contractorId config)" and "insertedId ins = Some lid"
  shows "calls (handleSkip config ins invErr s) =
           calls s @ [Inserted (skipLeadData config s) ins, Invoked (invokeBody config lid s) invErr] \<and>
         is_test_estimate (skipLeadData config s) = Some True \<and>
         lead_category (skipLeadData config s) = selectedCategory s \<and>
         currentLeadId (handleSkip config ins invErr s) = Some lid \<and>
         stage (handleSkip config ins invErr s) = Estimate \<and>
         isGeneratingEstimate (handleSkip config ins invErr s) = (invErr = None)"
  using assms
  by (simp add: handleSkip_def Let_def startEstimateGeneration_calls startEstimateGeneration_frame
      startEstimateGeneration_flag invokeBody_frame skipLeadData_def)

theorem handleSkip_creates_test_lead_witness:
  "truthy_str (contractorId \<lparr>contractorId = Some ''c1''\<rparr>) \<and>
   insertedId (InsertData (Some ''lead-1'')) = Some ''lead-1'' \<and>
   stage (handleSkip \<lparr>contractorId = Some ''c1''\<rparr> (InsertData (Some ''lead-1''))
            (Some (PlainObject ''function failed'')) initial_session) = Estimate \<and>
   \<not> isGeneratingEstimate (handleSkip \<lparr>contractorId = Some ''c1''\<rparr> (InsertData (Some ''lead-1''))
            (Some (PlainObject ''function failed'')) initial_session)"
proof -
  have cfg: "truthy_str (contractorId \<lparr>contractorId = Some ''c1''\<rparr>)"
    by (simp add: truthy_str_def)
  have ins: "insertedId (InsertData (Some ''lead-1'')) = Some ''lead-1''"
    by (simp add: insertedId_def truthy_str_def)
  from handleSkip_creates_test_lead [OF cfg ins, of "Some (PlainObject ''function failed'')"
      initial_session] cfg ins
  show ?thesis by simp
qed

section \<open>The poll loop always ends\<close>

lemma intervalTick_still_live:
  assumes "live i s" and "live i (intervalTick i q s)"
  shows "timeElapsed (intervals (intervalTick i q s) ! i) =
           timeElapsed (intervals s ! i) + POLL_INTERVAL"
  using assms
  by (auto simp: live_def intervalTick_def pollTick_def checkEstimateStatus_def toast_def Let_def
      split: prod.splits sum.splits if_splits query_result.splits option.splits)

lemma intervalTick_ends_clears_flag:
  assumes "live i s" and "\<not> live i (intervalTick i q s)"
  shows "\<not> isGeneratingEstimate (intervalTick i q s)"
  using assms
  by (auto simp: live_def intervalTick_def pollTick_def checkEstimateStatus_def toast_def Let_def
      split: prod.splits sum.splits if_splits query_result.splits option.splits)

lemma runInterval_bounded:
  "live i s \<Longrightarrow> timeElapsed (intervals s ! i) + POLL_INTERVAL * Suc m = ESTIMATE_TIMEOUT \<Longrightarrow>
   fst (runInterval i env n s) \<le> n + Suc m \<and>
   n < fst (runInterval i env n s) \<and>
   \<not> live i (snd (runInterval i env n s)) \<and>
   \<not> isGeneratingEstimate (snd (runInterval i env n s))"
proof (induction m arbitrary: n s)
  case 0
  let ?s' = "intervalTick i (env n) s"
  from "0.prems" have len: "i < length (intervals s)" and act: "\<not> cleared (intervals s ! i)"
    and late: "ESTIMATE_TIMEOUT \<le> timeElapsed (intervals s ! i) + POLL_INTERVAL"
    by (simp_all add: live_def)
  note tick = intervalTick_timeout [OF len act late, of "env n"]
  have stop: "\<not> (i < length (intervals ?s') \<and> \<not> cleared (intervals ?s' ! i))"
    using len by (simp add: tick)
  have "runInterval i env n s = (Suc n, ?s')"
    using runInterval_step [OF len act, of env n] runInterval_stop [OF stop, of env "Suc n"]
    by simp
  then show ?case
    using len by (simp add: tick live_def)
next
  case (Suc m)
  let ?s' = "intervalTick i (env n) s"
  from Suc.prems have len: "i < length (intervals s)" and act: "\<not> cleared (intervals s ! i)"
    by (simp_all add: live_def)
  have run: "runInterval i env n s = runInterval i env (Suc n) ?s'"
    by (rule runInterval_step [OF len act])
  show ?case
  proof (cases "live i ?s'")
    case True
    have te: "timeElapsed (intervals ?s' ! i) + POLL_INTERVAL * Suc m = ESTIMATE_TIMEOUT"
      using Suc.prems(2) by (simp add: intervalTick_still_live [OF Suc.prems(1) True])
    from Suc.IH [OF True te, of "Suc n"] show ?thesis
      unfolding run by simp
  next
    case False
    then have stop: "\<not> (i < length (intervals ?s') \<and> \<not> cleared (intervals ?s' ! i))"
      by (simp add: live_def)
    have "runInterval i env n s = (Suc n, ?s')"
      unfolding run by (rule runInterval_stop [OF stop])
    then show ?thesis
      using False intervalTick_ends_clears_flag [OF Suc.prems(1) False] by simp
  qed
qed

text \<open>
  Whatever the status queries answer, the timer created by a job start fires at least
  once and at most 40 times; when it has stopped it is cleared and
  \<open>isGeneratingEstimate\<close> is false.
\<close>

theorem poll_loop_ends_within_40_ticks:
  assumes "i < length (intervals s)"
    and "intervals s ! i = \<lparr>leadId = lid, timeElapsed = 0, cleared = False\<rparr>"
  shows "fst (runInterval i env 0 s) \<le> 40 \<and>
         0 < fst (runInterval i env 0 s) \<and>
         \<not> live i (snd (runInterval i env 0 s)) \<and>
         \<not> isGeneratingEstimate (snd (runInterval i env 0 s))"
proof -
  have lv: "live i s" using assms by (simp add: live_def)
  have te: "timeElapsed (intervals s ! i) + POLL_INTERVAL * Suc 39 = ESTIMATE_TIMEOUT"
    using assms(2) by (simp add: POLL_INTERVAL_def ESTIMATE_TIMEOUT_def)
  from runInterval_bounded [OF lv te, of env 0] show ?thesis by simp
qed

theorem poll_loop_ends_within_40_ticks_witness:
  "0 < length (intervals (startEstimateGeneration \<lparr>contractorId = Some ''c1''\<rparr> ''lead-1'' None
                            initial_session)) \<and>
   fst (runInterval 0
          (\<lambda>n. if n < 2 then QueryData None
                else QueryData (Some \<lparr>estimate_data = JNull, status = ''error'',
                                       error_message = Some ''model overloaded''\<rparr>))
          0 (startEstimateGeneration \<lparr>contractorId = Some ''c1''\<rparr> ''lead-1'' None initial_session))
     \<le> 40 \<and>
   \<not> isGeneratingEstimate (snd (runInterval 0
          (\<lambda>n. if n < 2 then QueryData None
                else QueryData (Some \<lparr>estimate_data = JNull, status = ''error'',
                                       error_message = Some ''model overloaded''\<rparr>))
          0 (startEstimateGeneration \<lparr>contractorId = Some ''c1''\<rparr> ''lead-1'' None initial_session)))"
proof -
  let ?s = "startEstimateGeneration \<lparr>contractorId = Some ''c1''\<rparr> ''lead-1'' None initial_session"
  have len: "0 < length (intervals ?s)" by (simp add: started_session)
  have p: "intervals ?s ! 0 = \<lparr>leadId = ''lead-1'', timeElapsed = 0, cleared = False\<rparr>"
    by (simp add: started_session)
  from poll_loop_ends_within_40_ticks [OF len p] len show ?thesis by blast
qed

end
